theory Spec2Isabelle
  imports Complex_Main "HOL-Library.AList" "HOL-Library.Sublist"
begin

section \<open>Values, containers and errors of the rice classification script\<close>

text \<open>
  The development embeds the experiment bookkeeping of
  \<^verbatim>\<open>rice_classification_binary.py\<close>: the two dataclasses
  \<^verbatim>\<open>ExperimentSettings\<close> and \<^verbatim>\<open>Experiment\<close>, and the functions
  \<^verbatim>\<open>train_model\<close>, \<^verbatim>\<open>evaluate_experiment\<close> and
  \<^verbatim>\<open>compare_experiment\<close>.

  Python floats are carried around as opaque numbers (type \<open>real\<close>); the only
  arithmetic done on them by the embedded code is the bar geometry of
  \<^verbatim>\<open>compare_experiment\<close>. A \<^verbatim>\<open>dict\<close> and a
  \<^verbatim>\<open>pandas.DataFrame\<close> are association lists in insertion (column) order,
  with distinct keys as a dict has them.
\<close>

type_synonym float = real

type_synonym 'v dict = "(string \<times> 'v) list"

type_synonym dataframe = "float list dict"

datatype error =
    ValueError string
  | KeyError string
  | IndexError
  | ZeroDivisionError
  | FrozenInstanceError
  | DataError string

text \<open>\<^verbatim>\<open>key in frame\<close> and \<^verbatim>\<open>list(frame.columns)\<close>.\<close>

definition columns :: "'v dict \<Rightarrow> string list" where
  "columns d = map fst d"

definition contains :: "'v dict \<Rightarrow> string \<Rightarrow> bool" where
  "contains d k = (k \<in> set (columns d))"

text \<open>\<^verbatim>\<open>d[k]\<close>: a missing key raises \<^verbatim>\<open>KeyError\<close>.\<close>

definition getitem :: "'v dict \<Rightarrow> string \<Rightarrow> error + 'v" where
  "getitem d k = (case map_of d k of None \<Rightarrow> Inl (KeyError k) | Some v \<Rightarrow> Inr v)"

text \<open>
  Positional indexing of a sequence, \<^verbatim>\<open>xs[i]\<close> and \<^verbatim>\<open>series.iloc[i]\<close>:
  a negative index counts from the end, an index out of range raises
  \<^verbatim>\<open>IndexError\<close>.
\<close>

definition index :: "'a list \<Rightarrow> int \<Rightarrow> error + 'a" where
  "index xs i =
     (if 0 \<le> i \<and> i < int (length xs) then Inr (xs ! nat i)
      else if i < 0 \<and> - int (length xs) \<le> i then Inr (xs ! nat (int (length xs) + i))
      else Inl IndexError)"

text \<open>\<^verbatim>\<open>str(i)\<close> of a non-negative integer, as the f-string \<^verbatim>\<open>f'C{i}'\<close> formats it.\<close>

fun str :: "nat \<Rightarrow> string" where
  "str n = (if n < 10 then [char_of (48 + n)] else str (n div 10) @ [char_of (48 + n mod 10)])"

declare str.simps [simp del]

text \<open>
  \<^verbatim>\<open>str(xs)\<close> of a list of strings: the elements' \<^verbatim>\<open>repr\<close>, separated by
  a comma and a space, in brackets. The \<^verbatim>\<open>repr\<close> of a single string (quoting
  and escaping) is a parameter.
\<close>

fun join :: "string \<Rightarrow> string list \<Rightarrow> string" where
  "join sep [] = []"
| "join sep [x] = x"
| "join sep (x # y # ys) = x @ sep @ join sep (y # ys)"

definition str_list :: "(string \<Rightarrow> string) \<Rightarrow> string list \<Rightarrow> string" where
  "str_list repr xs = ''['' @ join '', '' (map repr xs) @ '']''"

section \<open>The dataclasses\<close>

text \<open>
  \<^verbatim>\<open>@dataclasses.dataclass() class ExperimentSettings\<close>: five fields, no
  \<^verbatim>\<open>__post_init__\<close>, and the decorator is called without arguments, so
  \<^verbatim>\<open>frozen\<close> has its default \<^verbatim>\<open>False\<close>.
\<close>

record ExperimentSettings =
  learning_rate :: float
  number_epochs :: int
  batch_size :: int
  classification_threshold :: float
  input_features :: "string list"

definition ExperimentSettings_frozen :: bool where
  "ExperimentSettings_frozen = False"

text \<open>
  The generated \<^verbatim>\<open>__init__\<close> stores its five arguments; it has no check that
  could raise.
\<close>

definition ExperimentSettings_init ::
  "float \<Rightarrow> int \<Rightarrow> int \<Rightarrow> float \<Rightarrow> string list \<Rightarrow> error + ExperimentSettings" where
  "ExperimentSettings_init lr ne bs ct fs =
     Inr \<lparr>learning_rate = lr, number_epochs = ne, batch_size = bs,
          classification_threshold = ct, input_features = fs\<rparr>"

text \<open>
  An attribute assignment \<^verbatim>\<open>s.field = v\<close>. A frozen dataclass raises
  \<^verbatim>\<open>FrozenInstanceError\<close>; any other stores the value.
\<close>

datatype assignment =
    Set_learning_rate float
  | Set_number_epochs int
  | Set_batch_size int
  | Set_classification_threshold float
  | Set_input_features "string list"

fun store :: "assignment \<Rightarrow> ExperimentSettings \<Rightarrow> ExperimentSettings" where
  "store (Set_learning_rate v) s = s\<lparr>learning_rate := v\<rparr>"
| "store (Set_number_epochs v) s = s\<lparr>number_epochs := v\<rparr>"
| "store (Set_batch_size v) s = s\<lparr>batch_size := v\<rparr>"
| "store (Set_classification_threshold v) s = s\<lparr>classification_threshold := v\<rparr>"
| "store (Set_input_features v) s = s\<lparr>input_features := v\<rparr>"

definition setattr :: "ExperimentSettings \<Rightarrow> assignment \<Rightarrow> error + ExperimentSettings" where
  "setattr s a = (if ExperimentSettings_frozen then Inl FrozenInstanceError else Inr (store a s))"

text \<open>
  \<^verbatim>\<open>class Experiment\<close>. The model is a mutable \<^verbatim>\<open>keras.Model\<close> object,
  held by reference: the field is its address in the store of models.
\<close>

record Experiment =
  name :: string
  settings :: ExperimentSettings
  model :: nat
  epochs :: "int list"
  metrics_history :: dataframe

text \<open>
  \<^verbatim>\<open>Experiment.get_final_metric_value\<close>: the membership test on the frame's
  columns, the \<^verbatim>\<open>ValueError\<close> with its message, and the last entry of the column by
  \<^verbatim>\<open>.iloc[-1]\<close>.
\<close>

definition unknown_metric_message :: "(string \<Rightarrow> string) \<Rightarrow> string \<Rightarrow> string list \<Rightarrow> string" where
  "unknown_metric_message repr metric_name cols =
     ''Unknown metric '' @ metric_name @ '': available metrics are'' @ '' '' @ str_list repr cols"

definition get_final_metric_value ::
  "(string \<Rightarrow> string) \<Rightarrow> Experiment \<Rightarrow> string \<Rightarrow> error + float" where
  "get_final_metric_value repr self metric_name =
     (if \<not> contains (metrics_history self) metric_name
      then Inl (ValueError (unknown_metric_message repr metric_name (columns (metrics_history self))))
      else case getitem (metrics_history self) metric_name of
             Inl err \<Rightarrow> Inl err
           | Inr series \<Rightarrow> index series (- 1))"

section \<open>The modelling framework and the program state\<close>

text \<open>
  \<^verbatim>\<open>keras.Model.fit\<close> and \<^verbatim>\<open>keras.Model.evaluate\<close> are not part of the
  script. They are parameters of the embedding: functions of the model object's state
  \<open>'m\<close> and of the arguments the script passes (\<^verbatim>\<open>x\<close>, \<^verbatim>\<open>y\<close>,
  \<^verbatim>\<open>batch_size\<close>, and \<^verbatim>\<open>epochs\<close> for \<^verbatim>\<open>fit\<close>), returning what
  the call returns or raises, and the state the object is left in.
\<close>

record History =
  epoch :: "int list"
  history :: "float list dict"

record 'm keras =
  fit :: "'m \<Rightarrow> float list dict \<Rightarrow> int list \<Rightarrow> int \<Rightarrow> int \<Rightarrow> (error + History) \<times> 'm"
  evaluate :: "'m \<Rightarrow> float list dict \<Rightarrow> int list \<Rightarrow> int \<Rightarrow> (error + float dict) \<times> 'm"

text \<open>
  \<^verbatim>\<open>matplotlib.lines.Line2D([0], [0], label=..., marker=..., markersize=..., c=...)\<close>;
  an argument that is not passed is \<open>None\<close>.
\<close>

record Line2D =
  label :: string
  marker :: "string option"
  markersize :: "nat option"
  color :: "string option"

text \<open>
  Every call the script makes to the modelling and the plotting libraries, with its
  arguments. The plotting calls are recorded only: they return nothing the script reads.
\<close>

datatype call =
    Fit nat "float list dict" "int list" int int
  | Evaluate nat "float list dict" "int list" int
  | Figure nat nat
  | Add_subplot nat nat nat
  | Set_title string
  | Plot "int list" "float list" nat string nat string
  | Set_xlabel string
  | Set_ylabel string
  | Grid
  | Legend_handles "Line2D list"
  | Legend
  | Bar "float list" "float list" float string
  | Set_xticks "nat list" "string list"
  | Set_axisbelow bool

text \<open>
  The state the functions run in: the module-level variable \<^verbatim>\<open>settings\<close>
  (assigned once, before \<^verbatim>\<open>evaluate_experiment\<close> is defined), the model objects
  by address, and the calls made so far.
\<close>

record 'm world =
  settings_global :: ExperimentSettings
  models :: "nat \<Rightarrow> 'm"
  calls :: "call list"

definition emits :: "call list \<Rightarrow> 'm world \<Rightarrow> 'm world" where
  "emits cs w = w\<lparr>calls := calls w @ cs\<rparr>"

definition emit :: "call \<Rightarrow> 'm world \<Rightarrow> 'm world" where
  "emit c w = emits [c] w"

definition Model_fit ::
  "'m keras \<Rightarrow> nat \<Rightarrow> float list dict \<Rightarrow> int list \<Rightarrow> int \<Rightarrow> int \<Rightarrow> 'm world
     \<Rightarrow> (error + History) \<times> 'm world" where
  "Model_fit K ref x y bs n w =
     (case fit K (models w ref) x y bs n of
        (r, m') \<Rightarrow> (r, emit (Fit ref x y bs n) (w\<lparr>models := (models w)(ref := m')\<rparr>)))"

definition Model_evaluate ::
  "'m keras \<Rightarrow> nat \<Rightarrow> float list dict \<Rightarrow> int list \<Rightarrow> int \<Rightarrow> 'm world
     \<Rightarrow> (error + float dict) \<times> 'm world" where
  "Model_evaluate K ref x y bs w =
     (case evaluate K (models w ref) x y bs of
        (r, m') \<Rightarrow> (r, emit (Evaluate ref x y bs) (w\<lparr>models := (models w)(ref := m')\<rparr>)))"

text \<open>
  \<^verbatim>\<open>pd.DataFrame(d)\<close> of a dict of lists: the columns in the dict's order; lists of
  different lengths raise \<^verbatim>\<open>ValueError\<close>.
\<close>

definition DataFrame :: "float list dict \<Rightarrow> error + dataframe" where
  "DataFrame d =
     (case d of
        [] \<Rightarrow> Inr []
      | c # cs \<Rightarrow>
          if list_all (\<lambda>c'. length (snd c') = length (snd c)) cs then Inr d
          else Inl (ValueError ''All arrays must be of the same length''))"

section \<open>Training and evaluation\<close>

text \<open>
  The metrics the script instruments a model with:
  \<^verbatim>\<open>keras.metrics.BinaryAccuracy(name=..., threshold=...)\<close>,
  \<^verbatim>\<open>Precision(name=..., thresholds=...)\<close>, \<^verbatim>\<open>Recall(name=..., thresholds=...)\<close>
  and \<^verbatim>\<open>AUC(num_thresholds=..., name=...)\<close>, each with its name.
\<close>

datatype metric =
    BinaryAccuracy string float
  | Precision string float
  | Recall string float
  | AUC nat string

fun Metric_name :: "metric \<Rightarrow> string" where
  "Metric_name (BinaryAccuracy nm threshold) = nm"
| "Metric_name (Precision nm thresholds) = nm"
| "Metric_name (Recall nm thresholds) = nm"
| "Metric_name (AUC num_thresholds nm) = nm"

text \<open>
  \<^verbatim>\<open>create_model(settings, metrics)\<close>. The layers and the compilation are the
  framework's; the script chooses one input per name in \<^verbatim>\<open>settings.input_features\<close>,
  the learning rate of the optimizer and the metrics. The framework's construction of a
  compiled model from these three is the parameter \<open>Model\<close>.
\<close>

definition create_model ::
  "(string list \<Rightarrow> float \<Rightarrow> metric list \<Rightarrow> 'm) \<Rightarrow> ExperimentSettings \<Rightarrow> metric list \<Rightarrow> 'm" where
  "create_model Model stg metrics = Model (input_features stg) (learning_rate stg) metrics"

text \<open>
  The dict comprehension
  \<^verbatim>\<open>{feature_name: np.array(dataset[feature_name]) for feature_name in input_features}\<close>:
  the features in the order of their first occurrence; the first column the dataset
  lacks raises \<^verbatim>\<open>KeyError\<close>.
\<close>

fun select_features :: "dataframe \<Rightarrow> string list \<Rightarrow> float list dict \<Rightarrow> error + float list dict" where
  "select_features dataset [] acc = Inr acc"
| "select_features dataset (feature_name # rest) acc =
     (case getitem dataset feature_name of
        Inl err \<Rightarrow> Inl err
      | Inr col \<Rightarrow> select_features dataset rest (AList.update feature_name col acc))"

text \<open>\<^verbatim>\<open>train_model(experiment_name, model, dataset, labels, settings)\<close>.\<close>

definition train_model ::
  "'m keras \<Rightarrow> string \<Rightarrow> nat \<Rightarrow> dataframe \<Rightarrow> int list \<Rightarrow> ExperimentSettings \<Rightarrow> 'm world
     \<Rightarrow> (error + Experiment) \<times> 'm world" where
  "train_model K experiment_name ref dataset labels stg w =
     (case select_features dataset (input_features stg) [] of
        Inl err \<Rightarrow> (Inl err, w)
      | Inr features \<Rightarrow>
          (case Model_fit K ref features labels (batch_size stg) (number_epochs stg) w of
             (Inl err, w') \<Rightarrow> (Inl err, w')
           | (Inr h, w') \<Rightarrow>
               (case DataFrame (history h) of
                  Inl err \<Rightarrow> (Inl err, w')
                | Inr frame \<Rightarrow>
                    (Inr \<lparr>name = experiment_name, settings = stg, model = ref,
                          epochs = epoch h, metrics_history = frame\<rparr>, w'))))"

text \<open>
  \<^verbatim>\<open>evaluate_experiment(experiment, test_dataset, test_labels)\<close>. The features are
  selected by \<^verbatim>\<open>experiment.settings.input_features\<close>; the batch size is read from
  \<^verbatim>\<open>settings.batch_size\<close>, where \<^verbatim>\<open>settings\<close> is not a parameter of the
  function and so is the module-level variable.
\<close>

definition evaluate_experiment ::
  "'m keras \<Rightarrow> Experiment \<Rightarrow> dataframe \<Rightarrow> int list \<Rightarrow> 'm world \<Rightarrow> (error + float dict) \<times> 'm world" where
  "evaluate_experiment K experiment test_dataset test_labels w =
     (case select_features test_dataset (input_features (settings experiment)) [] of
        Inl err \<Rightarrow> (Inl err, w)
      | Inr features \<Rightarrow>
          Model_evaluate K (model experiment) features test_labels
            (batch_size (settings_global w)) w)"

section \<open>Comparing experiments\<close>

text \<open>
  \<^verbatim>\<open>compare_experiment(experiments, metrics_of_interest, test_dataset, test_labels)\<close>,
  in the order of its statements: the availability check, the figure with the train
  curves, the legend, and the bars of the test metrics.
\<close>

definition not_available_message :: "string \<Rightarrow> string \<Rightarrow> string" where
  "not_available_message metric experiment_name =
     ''Metric '' @ metric @ '' not available for experiment '' @ experiment_name"

fun check_experiments :: "string \<Rightarrow> Experiment list \<Rightarrow> error + unit" where
  "check_experiments metric [] = Inr ()"
| "check_experiments metric (experiment # rest) =
     (if \<not> contains (metrics_history experiment) metric
      then Inl (ValueError (not_available_message metric (name experiment)))
      else check_experiments metric rest)"

fun check_metrics :: "string list \<Rightarrow> Experiment list \<Rightarrow> error + unit" where
  "check_metrics [] experiments = Inr ()"
| "check_metrics (metric # rest) experiments =
     (case check_experiments metric experiments of
        Inl err \<Rightarrow> Inl err
      | Inr _ \<Rightarrow> check_metrics rest experiments)"

definition colors :: "Experiment list \<Rightarrow> string list" where
  "colors experiments = map (\<lambda>i. ''C'' @ str i) [0..<length experiments]"

definition markers :: "string list" where
  "markers = [''.'', ''*'', ''d'', ''s'', ''p'', ''x'']"

definition marker_size :: nat where
  "marker_size = 10"

text \<open>
  The two nested loops over \<^verbatim>\<open>enumerate(metrics_of_interest)\<close> and
  \<^verbatim>\<open>enumerate(experiments)\<close> that draw the train curves. The arguments of
  \<^verbatim>\<open>plt.plot\<close> are evaluated from left to right: the column of the metric, then
  \<^verbatim>\<open>markers[i]\<close>, then \<^verbatim>\<open>colors[j]\<close>.
\<close>

fun plot_experiments ::
  "string list \<Rightarrow> nat \<Rightarrow> string \<Rightarrow> nat \<Rightarrow> Experiment list \<Rightarrow> 'm world \<Rightarrow> (error + unit) \<times> 'm world" where
  "plot_experiments cs i metric j [] w = (Inr (), w)"
| "plot_experiments cs i metric j (experiment # rest) w =
     (case getitem (metrics_history experiment) metric of
        Inl err \<Rightarrow> (Inl err, w)
      | Inr series \<Rightarrow>
          (case index markers (int i) of
             Inl err \<Rightarrow> (Inl err, w)
           | Inr mk \<Rightarrow>
               (case index cs (int j) of
                  Inl err \<Rightarrow> (Inl err, w)
                | Inr c \<Rightarrow>
                    plot_experiments cs i metric (Suc j) rest
                      (emit (Plot (epochs experiment) series 4 mk marker_size c) w))))"

fun plot_metrics ::
  "string list \<Rightarrow> nat \<Rightarrow> string list \<Rightarrow> Experiment list \<Rightarrow> 'm world \<Rightarrow> (error + unit) \<times> 'm world" where
  "plot_metrics cs i [] experiments w = (Inr (), w)"
| "plot_metrics cs i (metric # rest) experiments w =
     (case plot_experiments cs i metric 0 experiments w of
        (Inl err, w1) \<Rightarrow> (Inl err, w1)
      | (Inr _, w1) \<Rightarrow> plot_metrics cs (Suc i) rest experiments w1)"

text \<open>The two loops that append to \<^verbatim>\<open>legend_handles\<close>.\<close>

fun metric_handles :: "nat \<Rightarrow> string list \<Rightarrow> Line2D list \<Rightarrow> error + Line2D list" where
  "metric_handles i [] legend_handles = Inr legend_handles"
| "metric_handles i (metric # rest) legend_handles =
     (case index markers (int i) of
        Inl err \<Rightarrow> Inl err
      | Inr mk \<Rightarrow>
          metric_handles (Suc i) rest
            (legend_handles @
               [\<lparr>label = metric, marker = Some mk, markersize = Some marker_size,
                 color = Some ''k''\<rparr>]))"

fun experiment_handles ::
  "string list \<Rightarrow> nat \<Rightarrow> Experiment list \<Rightarrow> Line2D list \<Rightarrow> error + Line2D list" where
  "experiment_handles cs i [] legend_handles = Inr legend_handles"
| "experiment_handles cs i (experiment # rest) legend_handles =
     (case index cs (int i) of
        Inl err \<Rightarrow> Inl err
      | Inr c \<Rightarrow>
          experiment_handles cs (Suc i) rest
            (legend_handles @
               [\<lparr>label = name experiment, marker = None, markersize = None, color = Some c\<rparr>]))"

text \<open>
  The loop over the experiments that evaluates each one and draws its bars;
  \<^verbatim>\<open>[test_metrics[metric] for metric in metrics_of_interest]\<close> raises
  \<^verbatim>\<open>KeyError\<close> at the first metric the evaluation did not return.
\<close>

fun lookup_all :: "float dict \<Rightarrow> string list \<Rightarrow> error + float list" where
  "lookup_all test_metrics [] = Inr []"
| "lookup_all test_metrics (metric # rest) =
     (case getitem test_metrics metric of
        Inl err \<Rightarrow> Inl err
      | Inr v \<Rightarrow>
          (case lookup_all test_metrics rest of
             Inl err \<Rightarrow> Inl err
           | Inr vs \<Rightarrow> Inr (v # vs)))"

definition bar_positions :: "nat \<Rightarrow> float \<Rightarrow> nat \<Rightarrow> nat \<Rightarrow> float list" where
  "bar_positions n_metrics bar_width i n_bars =
     map (\<lambda>k. real k + bar_width * (real i + 1 / 2 - real n_bars / 2)) [0..<n_metrics]"

fun bar_experiments ::
  "'m keras \<Rightarrow> string list \<Rightarrow> dataframe \<Rightarrow> int list \<Rightarrow> float \<Rightarrow> nat \<Rightarrow> nat \<Rightarrow> Experiment list
     \<Rightarrow> 'm world \<Rightarrow> (error + unit) \<times> 'm world" where
  "bar_experiments K metrics_of_interest test_dataset test_labels bar_width n_bars i [] w =
     (Inr (), w)"
| "bar_experiments K metrics_of_interest test_dataset test_labels bar_width n_bars i
     (experiment # rest) w =
     (case evaluate_experiment K experiment test_dataset test_labels w of
        (Inl err, w1) \<Rightarrow> (Inl err, w1)
      | (Inr test_metrics, w1) \<Rightarrow>
          (case lookup_all test_metrics metrics_of_interest of
             Inl err \<Rightarrow> (Inl err, w1)
           | Inr heights \<Rightarrow>
               bar_experiments K metrics_of_interest test_dataset test_labels bar_width n_bars
                 (Suc i) rest
                 (emit (Bar (bar_positions (length metrics_of_interest) bar_width i n_bars)
                          heights bar_width (name experiment)) w1)))"

definition spacing :: float where
  "spacing = 0.3"

definition compare_experiment ::
  "'m keras \<Rightarrow> Experiment list \<Rightarrow> string list \<Rightarrow> dataframe \<Rightarrow> int list \<Rightarrow> 'm world
     \<Rightarrow> (error + unit) \<times> 'm world" where
  "compare_experiment K experiments metrics_of_interest test_dataset test_labels w =
     (case check_metrics metrics_of_interest experiments of
        Inl err \<Rightarrow> (Inl err, w)
      | Inr _ \<Rightarrow>
          (case plot_metrics (colors experiments) 0 metrics_of_interest experiments
                  (emits [Figure 12 12, Add_subplot 2 1 1, Set_title ''Train metrics''] w) of
             (Inl err, w1) \<Rightarrow> (Inl err, w1)
           | (Inr _, w1) \<Rightarrow>
               (case metric_handles 0 metrics_of_interest [] of
                  Inl err \<Rightarrow> (Inl err, w1)
                | Inr hs \<Rightarrow>
                    (case experiment_handles (colors experiments) 0 experiments hs of
                       Inl err \<Rightarrow> (Inl err, w1)
                     | Inr legend_handles \<Rightarrow>
                         (let w2 = emits [Set_xlabel ''Epoch'', Set_ylabel ''Metric value'', Grid,
                                          Legend_handles legend_handles, Add_subplot 2 1 2] w1;
                              n_bars = length experiments
                          in if n_bars = 0 then (Inl ZeroDivisionError, w2)
                             else
                               (case bar_experiments K metrics_of_interest test_dataset test_labels
                                       ((1 - spacing) / real n_bars) n_bars 0 experiments w2 of
                                  (Inl err, w3) \<Rightarrow> (Inl err, w3)
                                | (Inr _, w3) \<Rightarrow>
                                    (Inr (),
                                     emits [Set_xticks [0..<length metrics_of_interest]
                                              metrics_of_interest,
                                            Set_title ''Test metrics'', Set_ylabel ''Metric value'',
                                            Set_axisbelow True, Grid, Legend] w3)))))))"

text \<open>
  The statements of \<^verbatim>\<open>compare_experiment\<close> from \<^verbatim>\<open>n_bars = len(experiments)\<close>
  to its end, as a function of the state they start in; \<open>compare_experiment_unfold\<close>
  below shows that \<open>compare_experiment\<close> ends with them.
\<close>

definition test_bars :: "'m keras \<Rightarrow> Experiment list \<Rightarrow> string list \<Rightarrow> dataframe \<Rightarrow> int list
    \<Rightarrow> 'm world \<Rightarrow> (error + unit) \<times> 'm world" where
  "test_bars K experiments metrics_of_interest test_dataset test_labels w2 =
     (let n_bars = length experiments
      in if n_bars = 0 then (Inl ZeroDivisionError, w2)
         else
           (case bar_experiments K metrics_of_interest test_dataset test_labels
                   ((1 - spacing) / real n_bars) n_bars 0 experiments w2 of
              (Inl err, w3) \<Rightarrow> (Inl err, w3)
            | (Inr _, w3) \<Rightarrow>
                (Inr (),
                 emits [Set_xticks [0..<length metrics_of_interest] metrics_of_interest,
                        Set_title ''Test metrics'', Set_ylabel ''Metric value'',
                        Set_axisbelow True, Grid, Legend] w3)))"

section \<open>Predicates of the claims and example values\<close>

text \<open>
  Modelled from the spec: the validity of a settings value, which the source does not
  define or check. A valid value has a positive learning rate, epoch count and batch
  size, a threshold in \<open>[0, 1]\<close>, and at least one feature.
\<close>

definition valid_settings :: "ExperimentSettings \<Rightarrow> bool" where
  "valid_settings s =
     (0 < learning_rate s \<and> 0 < number_epochs s \<and> 0 < batch_size s
      \<and> 0 \<le> classification_threshold s \<and> classification_threshold s \<le> 1
      \<and> input_features s \<noteq> [])"

text \<open>
  Modelled from the spec: evaluation by the modelling collaborator
  (\<^verbatim>\<open>keras.Model.evaluate\<close>), whose code is not part of the script, is inference
  only: it leaves the model as it was. This is a hypothesis of the theorem that needs it,
  never a fact of the embedding.
\<close>

definition inference_only :: "'m keras \<Rightarrow> bool" where
  "inference_only K = (\<forall>m x y bs. snd (evaluate K m x y bs) = m)"

text \<open>
  The \<^verbatim>\<open>repr\<close> of a string of printable ASCII characters that has no quote and no
  backslash: the string in single quotes.
\<close>

definition quoted :: "string \<Rightarrow> string" where
  "quoted s = [CHR 0x27] @ s @ [CHR 0x27]"

text \<open>
  A modelling framework to run the functions on: training for \<open>n\<close> epochs reports a loss
  and an accuracy per epoch and counts the epochs in the model's state; evaluation
  reports the two metrics and leaves the state alone.
\<close>

definition stub_keras :: "nat keras" where
  "stub_keras =
     \<lparr>fit = (\<lambda>m x y bs n.
              (Inr \<lparr>epoch = [0..n - 1],
                     history = [(''loss'', replicate (nat n) 0.5),
                                (''accuracy'', replicate (nat n) 0.9)]\<rparr>,
               m + nat n)),
      evaluate = (\<lambda>m x y bs. (Inr [(''loss'', 0.5), (''accuracy'', 0.9)], m))\<rparr>"

text \<open>The settings of the script's baseline experiment, and a small configuration.\<close>

definition baseline_settings :: ExperimentSettings where
  "baseline_settings =
     \<lparr>learning_rate = 0.001, number_epochs = 60, batch_size = 100,
      classification_threshold = 0.35,
      input_features = [''Eccentricity'', ''Major_Axis_Length'', ''Area'']\<rparr>"

definition small_settings :: ExperimentSettings where
  "small_settings =
     \<lparr>learning_rate = 0.001, number_epochs = 3, batch_size = 10,
      classification_threshold = 0.5, input_features = [''f1'']\<rparr>"

definition small_data :: dataframe where
  "small_data = [(''f1'', [0.1, 0.9]), (''f2'', [1, 2])]"

definition small_run :: Experiment where
  "small_run =
     \<lparr>name = ''small'', settings = small_settings, model = 0, epochs = [0, 1, 2],
      metrics_history = [(''loss'', [0.7, 0.6, 0.5]), (''accuracy'', [0.5, 0.8, 0.9])]\<rparr>"

definition world0 :: "nat world" where
  "world0 = \<lparr>settings_global = baseline_settings, models = (\<lambda>_. 0), calls = []\<rparr>"

section \<open>The modelling collaborator of the specification\<close>

text \<open>
  Modelled from the spec: the modelling collaborator (\<^verbatim>\<open>keras.Model\<close>: construction,
  \<^verbatim>\<open>fit\<close>, \<^verbatim>\<open>evaluate\<close>), whose code is not part of the script. A model
  handle has one input slot per feature name, an optimizer, the metrics it is
  instrumented with, and its weights. The numerics are left open: how one pass over the
  data in batches changes the weights (\<open>step\<close>), the value of a metric (\<open>score\<close>), the
  initial weights, and what happens for a non-positive batch size or epoch count or a
  model without inputs, which the specification leaves open (\<open>unspecified\<close>).
\<close>

record 'w handle =
  input_names :: "string list"
  optimizer_rate :: float
  instrumented :: "metric list"
  weights :: 'w

record 'w training =
  initial :: "string list \<Rightarrow> 'w"
  step :: "'w \<Rightarrow> float \<Rightarrow> float list dict \<Rightarrow> int list \<Rightarrow> int \<Rightarrow> 'w"
  score :: "metric \<Rightarrow> 'w \<Rightarrow> float list dict \<Rightarrow> int list \<Rightarrow> float"
  unspecified :: "int \<Rightarrow> int \<Rightarrow> error + History"

text \<open>
  Modelled from the spec: labels are aligned row-for-row with a table of features when
  every column has as many rows as there are labels.
\<close>

definition aligned :: "float list dict \<Rightarrow> int list \<Rightarrow> bool" where
  "aligned x y = list_all (\<lambda>c. length (snd c) = length y) x"

text \<open>
  Modelled from the spec: the scores of the instrumented metrics, a mapping from metric
  name to a single scalar; two metrics of one name share the entry.
\<close>

fun metric_scores ::
  "'w training \<Rightarrow> metric list \<Rightarrow> 'w \<Rightarrow> float list dict \<Rightarrow> int list \<Rightarrow> float dict \<Rightarrow> float dict" where
  "metric_scores T [] wts x y scores = scores"
| "metric_scores T (m # ms) wts x y scores =
     metric_scores T ms wts x y (AList.update (Metric_name m) (score T m wts x y) scores)"

text \<open>
  Modelled from the spec: on each epoch the metrics history is appended with one value
  per instrumented metric. \<open>recorded h k\<close> is the sequence recorded for \<open>k\<close> so far, empty
  when there is none.
\<close>

definition recorded :: "float list dict \<Rightarrow> string \<Rightarrow> float list" where
  "recorded h k = (case map_of h k of None \<Rightarrow> [] | Some vs \<Rightarrow> vs)"

definition append_value :: "string \<Rightarrow> float \<Rightarrow> float list dict \<Rightarrow> float list dict" where
  "append_value k v h = AList.update k (recorded h k @ [v]) h"

fun append_scores :: "float dict \<Rightarrow> float list dict \<Rightarrow> float list dict" where
  "append_scores [] h = h"
| "append_scores ((k, v) # rest) h = append_scores rest (append_value k v h)"

text \<open>
  Modelled from the spec: \<open>k\<close> more passes over the data in batches of the batch size,
  starting with epoch \<open>e\<close>; each pass updates the weights, records the index of the
  epoch and appends the scores.
\<close>

fun run_epochs ::
  "'w training \<Rightarrow> 'w handle \<Rightarrow> float list dict \<Rightarrow> int list \<Rightarrow> int \<Rightarrow> nat \<Rightarrow> nat \<Rightarrow> 'w \<Rightarrow> History
     \<Rightarrow> 'w \<times> History" where
  "run_epochs T m x y bs 0 e wts h = (wts, h)"
| "run_epochs T m x y bs (Suc k) e wts h =
     (let wts' = step T wts (optimizer_rate m) x y bs;
          h' = \<lparr>epoch = epoch h @ [int e],
                history = append_scores (metric_scores T (instrumented m) wts' x y []) (history h)\<rparr>
      in run_epochs T m x y bs k (Suc e) wts' h')"

text \<open>
  Modelled from the spec: \<open>fit\<close> fails with \<open>DataError\<close> when a required feature column
  is missing or the labels misalign with the features, and otherwise runs the epochs
  from an empty history. It changes the weights of the model and nothing else.
\<close>

definition spec_fit ::
  "'w training \<Rightarrow> 'w handle \<Rightarrow> float list dict \<Rightarrow> int list \<Rightarrow> int \<Rightarrow> int
     \<Rightarrow> (error + History) \<times> 'w handle" where
  "spec_fit T m x y bs n =
     (if \<not> list_all (contains x) (input_names m)
      then (Inl (DataError ''a required feature column is missing''), m)
      else if \<not> aligned x y
      then (Inl (DataError ''labels misalign with features''), m)
      else if bs \<le> 0 \<or> n \<le> 0 \<or> input_names m = [] then (unspecified T bs n, m)
      else
        (case run_epochs T m x y bs (nat n) 0 (weights m) \<lparr>epoch = [], history = []\<rparr> of
           (wts, h) \<Rightarrow> (Inr h, m\<lparr>weights := wts\<rparr>)))"

text \<open>
  Modelled from the spec: \<open>evaluate\<close> is a single pass in inference mode: it returns the
  scores of the instrumented metrics on the data and leaves the model as it is.
\<close>

definition spec_evaluate ::
  "'w training \<Rightarrow> 'w handle \<Rightarrow> float list dict \<Rightarrow> int list \<Rightarrow> int
     \<Rightarrow> (error + float dict) \<times> 'w handle" where
  "spec_evaluate T m x y bs =
     (if \<not> list_all (contains x) (input_names m)
      then (Inl (DataError ''a required feature column is missing''), m)
      else if \<not> aligned x y
      then (Inl (DataError ''labels misalign with features''), m)
      else (Inr (metric_scores T (instrumented m) (weights m) x y []), m))"

text \<open>
  Modelled from the spec: the construction of a model from input names, the learning
  rate and the metrics, and the collaborator as the embedding takes it.
\<close>

definition spec_construct :: "'w training \<Rightarrow> string list \<Rightarrow> float \<Rightarrow> metric list \<Rightarrow> 'w handle" where
  "spec_construct T names rate metrics =
     \<lparr>input_names = names, optimizer_rate = rate, instrumented = metrics,
      weights = initial T names\<rparr>"

definition spec_keras :: "'w training \<Rightarrow> 'w handle keras" where
  "spec_keras T = \<lparr>fit = spec_fit T, evaluate = spec_evaluate T\<rparr>"

text \<open>
  Example values for the collaborator: weights that count the epochs, scores of a tenth
  per epoch, a model instrumented with an accuracy and an AUC, and a state whose models
  are freshly created ones.
\<close>

definition counting :: "nat training" where
  "counting =
     \<lparr>initial = (\<lambda>names. 0),
      step = (\<lambda>wts rate x y bs. Suc wts),
      score = (\<lambda>m wts x y. real wts / 10),
      unspecified = (\<lambda>bs n. Inl (ValueError ''unspecified''))\<rparr>"

definition small_metrics :: "metric list" where
  "small_metrics = [BinaryAccuracy ''accuracy'' 0.5, AUC 100 ''auc'']"

definition fresh_world :: "nat handle world" where
  "fresh_world =
     \<lparr>settings_global = small_settings,
      models = (\<lambda>_. create_model (spec_construct counting) small_settings small_metrics),
      calls = []\<rparr>"

section \<open>The legend as the specification words it\<close>

text \<open>
  Modelled from the spec: the colour of a run is a function of its index in the list of
  runs, the marker of a metric a function of its index in the list of metrics. The train curves and the legend
  entries are written with these two functions, for comparison with what
  \<^verbatim>\<open>compare_experiment\<close> draws.
\<close>

definition color_of_run :: "nat \<Rightarrow> string" where
  "color_of_run j = ''C'' @ str j"

definition marker_of_metric :: "nat \<Rightarrow> string" where
  "marker_of_metric i = markers ! i"

definition train_curve :: "nat \<Rightarrow> string \<Rightarrow> nat \<Rightarrow> Experiment \<Rightarrow> call" where
  "train_curve i metric j experiment =
     Plot (epochs experiment) (the (map_of (metrics_history experiment) metric)) 4
       (marker_of_metric i) marker_size (color_of_run j)"

definition train_curves :: "Experiment list \<Rightarrow> string list \<Rightarrow> call list" where
  "train_curves experiments metrics_of_interest =
     concat (map (\<lambda>(i, metric). map (\<lambda>(j, experiment). train_curve i metric j experiment)
                                     (enumerate 0 experiments))
                 (enumerate 0 metrics_of_interest))"

definition metric_entry :: "nat \<Rightarrow> string \<Rightarrow> Line2D" where
  "metric_entry i metric =
     \<lparr>label = metric, marker = Some (marker_of_metric i), markersize = Some marker_size,
      color = Some ''k''\<rparr>"

definition run_entry :: "nat \<Rightarrow> Experiment \<Rightarrow> Line2D" where
  "run_entry j experiment =
     \<lparr>label = name experiment, marker = None, markersize = None, color = Some (color_of_run j)\<rparr>"

definition legend_entries :: "Experiment list \<Rightarrow> string list \<Rightarrow> Line2D list" where
  "legend_entries experiments metrics_of_interest =
     map (\<lambda>(i, metric). metric_entry i metric) (enumerate 0 metrics_of_interest)
     @ map (\<lambda>(j, experiment). run_entry j experiment) (enumerate 0 experiments)"

text \<open>
  The calls that carry a colour or a marker the script chose (the curves and the legend
  with handles), among the calls that a run of a function added to the log.
\<close>

fun is_styled :: "call \<Rightarrow> bool" where
  "is_styled (Plot x y every mk sz c) = True"
| "is_styled (Legend_handles hs) = True"
| "is_styled other = False"

definition styled :: "call list \<Rightarrow> call list" where
  "styled cs = filter is_styled cs"

definition new_calls :: "'m world \<Rightarrow> 'm world \<Rightarrow> call list" where
  "new_calls w w' = drop (length (calls w)) (calls w')"

text \<open>
  More example values: a run without accuracy, a run with seven metrics, and a second
  state of the program.
\<close>

definition run_a :: Experiment where
  "run_a =
     \<lparr>name = ''a'', settings = baseline_settings, model = 1, epochs = [0, 1, 2],
      metrics_history = [(''loss'', [0.9, 0.8, 0.7])]\<rparr>"

definition seven_metrics :: "string list" where
  "seven_metrics = [''m1'', ''m2'', ''m3'', ''m4'', ''m5'', ''m6'', ''m7'']"

definition wide_run :: Experiment where
  "wide_run =
     \<lparr>name = ''wide'', settings = small_settings, model = 0, epochs = [0],
      metrics_history = map (\<lambda>m. (m, [0.5])) seven_metrics\<rparr>"

definition world1 :: "nat world" where
  "world1 = \<lparr>settings_global = small_settings, models = (\<lambda>_. 7), calls = [Grid]\<rparr>"

section \<open>The log of calls\<close>

lemma calls_emits [simp]: "calls (emits cs w) = calls w @ cs"
  and models_emits [simp]: "models (emits cs w) = models w"
  and settings_global_emits [simp]: "settings_global (emits cs w) = settings_global w"
  by (simp_all add: emits_def)

lemma emit_emits: "emit c w = emits [c] w"
  by (simp add: emit_def)

lemma emits_emits [simp]: "emits bs (emits as w) = emits (as @ bs) w"
  by (simp add: emits_def)

lemma emits_Nil [simp]: "emits [] w = w"
  by (simp add: emits_def)

section \<open>The final value of a metric\<close>

lemma contains_getitem: "contains d k \<Longrightarrow> \<exists>v. getitem d k = Inr v"
  unfolding contains_def columns_def getitem_def
  by (cases "map_of d k") (auto simp: map_of_eq_None_iff)

lemma getitem_contains: "getitem d k = Inr v \<Longrightarrow> contains d k"
  unfolding contains_def columns_def getitem_def
  by (auto split: option.splits dest: map_of_SomeD intro: rev_image_eqI)

lemma index_last: "index xs (- 1) = (if xs = [] then Inl IndexError else Inr (last xs))"
  by (cases xs rule: rev_cases) (auto simp: index_def nat_add_distrib)

text \<open>
  Claim C4. For a metric that is a column of the run's \<^verbatim>\<open>metrics_history\<close>,
  \<^verbatim>\<open>get_final_metric_value\<close> returns \<^verbatim>\<open>metrics_history[metric_name].iloc[-1]\<close>:
  the last recorded value of the column. Only a column without rows has no last value,
  and there the same expression raises \<^verbatim>\<open>IndexError\<close>; a run that
  \<^verbatim>\<open>train_model\<close> built has a value in every column, one per epoch.
\<close>

theorem get_final_metric_value_known:
  assumes "getitem (metrics_history self) metric_name = Inr series"
  shows "get_final_metric_value repr self metric_name =
           (if series = [] then Inl IndexError else Inr (last series))"
  using assms getitem_contains [OF assms]
  by (simp add: get_final_metric_value_def index_last)

theorem get_final_metric_value_known_witness:
  "getitem (metrics_history small_run) ''accuracy'' = Inr [0.5, 0.8, 0.9]
   \<and> get_final_metric_value quoted small_run ''accuracy'' = Inr 0.9"
proof -
  have h: "getitem (metrics_history small_run) ''accuracy'' = Inr [0.5, 0.8, 0.9]"
    by (simp add: small_run_def getitem_def)
  show ?thesis using h get_final_metric_value_known [OF h, of quoted] by simp
qed

lemma sublist_join: "x \<in> set xs \<Longrightarrow> sublist x (join sep xs)"
proof (induction sep xs rule: join.induct)
  case (3 sep a b ys)
  show ?case
  proof (cases "x = a")
    case True
    then show ?thesis by (simp add: sublist_append_rightI)
  next
    case False
    with 3 have "sublist x (join sep (b # ys))" by simp
    then show ?thesis by (auto simp: sublist_def Cons_eq_append_conv) (metis append.assoc)
  qed
qed simp_all

text \<open>
  Claim C5. For a metric that is not a column of the run's \<^verbatim>\<open>metrics_history\<close>,
  \<^verbatim>\<open>get_final_metric_value\<close> raises the script's unknown-metric error, a
  \<^verbatim>\<open>ValueError\<close>, whose message contains the requested name and the list of all the
  columns, each column by its \<^verbatim>\<open>repr\<close>.
\<close>

theorem get_final_metric_value_unknown:
  assumes "\<not> contains (metrics_history self) metric_name"
  shows "\<exists>msg. get_final_metric_value repr self metric_name = Inl (ValueError msg)
           \<and> sublist metric_name msg
           \<and> sublist (str_list repr (columns (metrics_history self))) msg
           \<and> (\<forall>c \<in> set (columns (metrics_history self)). sublist (repr c) msg)"
proof -
  let ?cols = "columns (metrics_history self)"
  let ?msg = "unknown_metric_message repr metric_name ?cols"
  have 1: "get_final_metric_value repr self metric_name = Inl (ValueError ?msg)"
    using assms by (simp add: get_final_metric_value_def)
  have 2: "sublist metric_name ?msg"
    unfolding unknown_metric_message_def by (rule sublist_appendI)
  have 3: "sublist (str_list repr ?cols) ?msg"
    unfolding unknown_metric_message_def
    by (metis append.assoc sublist_append_leftI)
  have 4: "sublist (repr c) ?msg" if "c \<in> set ?cols" for c
  proof -
    from that have "repr c \<in> set (map repr ?cols)" by simp
    then have "sublist (repr c) (join '', '' (map repr ?cols))" by (rule sublist_join)
    then have "sublist (repr c) (str_list repr ?cols)"
      unfolding str_list_def by (meson sublist_appendI sublist_order.order_trans)
    then show ?thesis using 3 by (rule sublist_order.order_trans)
  qed
  from 1 2 3 4 show ?thesis by blast
qed

theorem get_final_metric_value_unknown_witness:
  "\<not> contains (metrics_history small_run) ''nonexistent''
   \<and> (\<exists>msg. get_final_metric_value quoted small_run ''nonexistent'' = Inl (ValueError msg)
          \<and> sublist ''nonexistent'' msg
          \<and> sublist (str_list quoted (columns (metrics_history small_run))) msg
          \<and> sublist (quoted ''loss'') msg \<and> sublist (quoted ''accuracy'') msg)"
proof -
  have h: "\<not> contains (metrics_history small_run) ''nonexistent''"
    by (simp add: small_run_def contains_def columns_def)
  have c: "columns (metrics_history small_run) = [''loss'', ''accuracy'']"
    by (simp add: small_run_def columns_def)
  show ?thesis using h get_final_metric_value_unknown [OF h, of quoted] unfolding c by auto
qed

section \<open>Training\<close>

subsection \<open>The scores and the history of the collaborator\<close>

lemma metric_scores_columns_cong:
  "columns s1 = columns s2 \<Longrightarrow>
   columns (metric_scores T ms w1 x1 y1 s1) = columns (metric_scores T ms w2 x2 y2 s2)"
proof (induction ms arbitrary: s1 s2)
  case Nil
  then show ?case by simp
next
  case (Cons m ms)
  have "columns (AList.update (Metric_name m) (score T m w1 x1 y1) s1) =
      columns (AList.update (Metric_name m) (score T m w2 x2 y2) s2)"
    using Cons.prems by (simp add: columns_def update_keys)
  then show ?case by (simp add: Cons.IH)
qed

lemma metric_scores_set:
  "set (columns (metric_scores T ms wts x y s)) = set (columns s) \<union> Metric_name ` set ms"
proof (induction ms arbitrary: s)
  case Nil
  then show ?case by simp
next
  case (Cons m ms)
  have "set (columns (AList.update (Metric_name m) (score T m wts x y) s)) =
      insert (Metric_name m) (set (columns s))"
    by (simp add: columns_def dom_update)
  with Cons.IH [of "AList.update (Metric_name m) (score T m wts x y) s"] show ?case by auto
qed

lemma metric_scores_distinct:
  "distinct (columns s) \<Longrightarrow> distinct (columns (metric_scores T ms wts x y s))"
proof (induction ms arbitrary: s)
  case Nil
  then show ?case by simp
next
  case (Cons m ms)
  from Cons.prems have "distinct (columns (AList.update (Metric_name m) (score T m wts x y) s))"
    unfolding columns_def by (rule distinct_update)
  then show ?case by (simp add: Cons.IH)
qed

lemma columns_append_value:
  "columns (append_value k v h) = (if k \<in> set (columns h) then columns h else columns h @ [k])"
  by (simp add: append_value_def columns_def update_keys)

lemma recorded_append_value:
  "recorded (append_value k v h) k' = (if k' = k then recorded h k @ [v] else recorded h k')"
  by (simp add: append_value_def recorded_def update_conv')

lemma columns_append_scores_new:
  "distinct (columns s) \<Longrightarrow> set (columns s) \<inter> set (columns h) = {} \<Longrightarrow>
   columns (append_scores s h) = columns h @ columns s"
proof (induction s arbitrary: h)
  case Nil
  then show ?case by (simp add: columns_def)
next
  case (Cons p s)
  obtain k v where p: "p = (k, v)" by (cases p)
  from Cons.prems p have k: "k \<notin> set (columns h)" "k \<notin> set (columns s)" "distinct (columns s)"
    and d: "set (columns s) \<inter> set (columns h) = {}"
    by (auto simp: columns_def)
  have c: "columns (append_value k v h) = columns h @ [k]"
    using k(1) by (simp add: columns_append_value)
  have "columns (append_scores s (append_value k v h)) = columns (append_value k v h) @ columns s"
    using k d c by (intro Cons.IH) auto
  moreover have "columns (p # s) = k # columns s" by (simp add: columns_def p)
  ultimately show ?case using c p by simp
qed

lemma columns_append_scores_old:
  "set (columns s) \<subseteq> set (columns h) \<Longrightarrow> columns (append_scores s h) = columns h"
proof (induction s arbitrary: h)
  case Nil
  then show ?case by simp
next
  case (Cons p s)
  obtain k v where p: "p = (k, v)" by (cases p)
  from Cons.prems p have k: "k \<in> set (columns h)" and r: "set (columns s) \<subseteq> set (columns h)"
    by (auto simp: columns_def)
  have c: "columns (append_value k v h) = columns h" using k by (simp add: columns_append_value)
  from Cons.IH [of "append_value k v h"] r c p show ?case by simp
qed

lemma recorded_append_scores:
  "distinct (columns s) \<Longrightarrow>
   length (recorded (append_scores s h) k) =
     (if k \<in> set (columns s) then Suc (length (recorded h k)) else length (recorded h k))"
proof (induction s arbitrary: h)
  case Nil
  then show ?case by (simp add: columns_def)
next
  case (Cons p s)
  obtain k' v where p: "p = (k', v)" by (cases p)
  from Cons.prems p have d: "distinct (columns s)" and n: "k' \<notin> set (columns s)"
    by (auto simp: columns_def)
  from Cons.IH [OF d, of "append_value k' v h"] p n show ?case
    by (auto simp: recorded_append_value columns_def)
qed

lemma map_int_upt: "map int [0..<n] = [0..int n - 1]"
proof (induction n)
  case 0
  then show ?case by simp
next
  case (Suc n)
  have "[0..int (Suc n) - 1] = [0..int n - 1] @ [int n]"
    using upto_rec2 [of 0 "int n"] by simp
  with Suc show ?case by simp
qed

lemma run_epochs_history:
  assumes "run_epochs T m x y bs k e wts h = (wts', h')"
    and "epoch h = map int [0..<e]"
    and "if e = 0 then history h = []
         else columns (history h) = C \<and> (\<forall>c \<in> set C. length (recorded (history h) c) = e)"
    and C: "C = columns (metric_scores T (instrumented m) w0 x y [])"
  shows "epoch h' = map int [0..<e + k]
       \<and> (if e + k = 0 then history h' = []
           else columns (history h') = C \<and> (\<forall>c \<in> set C. length (recorded (history h') c) = e + k))"
  using assms(1-3)
proof (induction k arbitrary: e wts h)
  case 0
  then show ?case by (auto split: if_splits)
next
  case (Suc k)
  let ?wts = "step T wts (optimizer_rate m) x y bs"
  let ?s = "metric_scores T (instrumented m) ?wts x y []"
  let ?h = "\<lparr>epoch = epoch h @ [int e], history = append_scores ?s (history h)\<rparr>"
  have keys: "columns ?s = C"
    unfolding C by (rule metric_scores_columns_cong) simp
  have d: "distinct (columns ?s)"
    by (rule metric_scores_distinct) (simp add: columns_def)
  have run: "run_epochs T m x y bs k (Suc e) ?wts ?h = (wts', h')"
    using Suc.prems(1) by (simp add: Let_def)
  have ep: "epoch ?h = map int [0..<Suc e]"
    using Suc.prems(2) by simp
  have cols: "columns (history ?h) = C"
  proof (cases "e = 0")
    case True
    with Suc.prems(3) have "history h = []" by simp
    with columns_append_scores_new [OF d, of "[]"] keys show ?thesis
      by (simp add: columns_def)
  next
    case False
    with Suc.prems(3) have "columns (history h) = C" by simp
    with columns_append_scores_old [of ?s "history h"] keys show ?thesis by simp
  qed
  have lens: "length (recorded (history ?h) c) = Suc e" if "c \<in> set C" for c
  proof (cases "e = 0")
    case True
    with Suc.prems(3) have "history h = []" by simp
    with recorded_append_scores [OF d, of "[]" c] keys that True show ?thesis
      by (simp add: recorded_def)
  next
    case False
    with Suc.prems(3) that have "length (recorded (history h) c) = e" by simp
    with recorded_append_scores [OF d, of "history h" c] keys that show ?thesis by simp
  qed
  have inv: "if Suc e = 0 then history ?h = []
      else columns (history ?h) = C \<and> (\<forall>c \<in> set C. length (recorded (history ?h) c) = Suc e)"
    using cols lens by simp
  from Suc.IH [OF run ep inv] show ?case by simp
qed

subsection \<open>The features and the frame\<close>

lemma update_not_Nil: "AList.update k v al \<noteq> []"
  by (cases al) auto

lemma DataFrame_same_length:
  assumes "list_all (\<lambda>c. length (snd c) = n) d"
  shows "DataFrame d = Inr d"
proof (cases d)
  case Nil
  then show ?thesis by (simp add: DataFrame_def)
next
  case (Cons c cs)
  with assms have "list_all (\<lambda>c'. length (snd c') = length (snd c)) cs"
    by (auto simp: list_all_iff)
  with Cons show ?thesis by (simp add: DataFrame_def)
qed

lemma select_features_result:
  assumes "select_features dataset fs acc = Inr x" and "distinct (columns acc)"
  shows "distinct (columns x) \<and> set (columns x) = set (columns acc) \<union> set fs
       \<and> (\<forall>k. map_of x k = (if k \<in> set fs then map_of dataset k else map_of acc k))"
  using assms
proof (induction fs arbitrary: acc)
  case Nil
  then show ?case by simp
next
  case (Cons f fs)
  from Cons.prems(1) obtain col where col: "getitem dataset f = Inr col"
    and rest: "select_features dataset fs (AList.update f col acc) = Inr x"
    by (auto split: sum.splits)
  from col have ds: "map_of dataset f = Some col"
    by (auto simp: getitem_def split: option.splits)
  have d: "distinct (columns (AList.update f col acc))"
    using Cons.prems(2) unfolding columns_def by (rule distinct_update)
  have keys: "set (columns (AList.update f col acc)) = insert f (set (columns acc))"
    by (simp add: columns_def dom_update)
  from Cons.IH [OF rest d] keys ds show ?case
    by (auto simp: update_conv')
qed

lemma select_features_total:
  assumes "\<forall>f \<in> set fs. contains dataset f"
  shows "\<exists>x. select_features dataset fs acc = Inr x"
  using assms
proof (induction fs arbitrary: acc)
  case Nil
  then show ?case by simp
next
  case (Cons f fs)
  then obtain col where "getitem dataset f = Inr col"
    using contains_getitem by fastforce
  with Cons show ?case by simp
qed

lemma select_features_aligned:
  assumes x: "select_features dataset fs [] = Inr x" and a: "aligned dataset y"
  shows "aligned x y \<and> list_all (contains x) fs"
proof -
  from select_features_result [OF x] have d: "distinct (columns x)"
    and keys: "set (columns x) = set fs"
    and vals: "\<And>k. map_of x k = (if k \<in> set fs then map_of dataset k else None)"
    by (simp_all add: columns_def)
  have "length (snd c) = length y" if "c \<in> set x" for c
  proof -
    obtain k v where c: "c = (k, v)" by (cases c)
    with that d have "map_of x k = Some v" by (simp add: columns_def)
    with vals [of k] have "map_of dataset k = Some v" by (auto split: if_splits)
    then have "(k, v) \<in> set dataset" by (rule map_of_SomeD)
    with a c show ?thesis by (auto simp: aligned_def list_all_iff)
  qed
  then have "aligned x y" by (simp add: aligned_def list_all_iff)
  moreover have "list_all (contains x) fs"
    using keys by (simp add: list_all_iff contains_def)
  ultimately show ?thesis by simp
qed

lemma getitem_column:
  assumes "k \<in> set (columns d)"
  shows "\<exists>v. getitem d k = Inr v \<and> (k, v) \<in> set d"
proof -
  from assms obtain v where "map_of d k = Some v"
    by (cases "map_of d k") (auto simp: columns_def map_of_eq_None_iff)
  then show ?thesis by (auto simp: getitem_def dest: map_of_SomeD)
qed

lemma getitem_recorded: "getitem d k = Inr v \<Longrightarrow> recorded d k = v"
  by (auto simp: getitem_def recorded_def split: option.splits)

subsection \<open>The run that training returns\<close>

text \<open>
  Claim C1. For valid settings, a dataset that has a column for every input feature,
  labels aligned with it, and a model that \<^verbatim>\<open>create_model\<close> built for these settings
  and metrics, \<^verbatim>\<open>train_model\<close> returns a run whose epochs are
  \<open>0, ..., number_epochs - 1\<close>, so as many as \<open>number_epochs\<close>, and whose
  \<^verbatim>\<open>metrics_history\<close> has exactly the names of the instrumented metrics as columns,
  each with one value per epoch. The run keeps the name, the settings and the model it
  was given, and the model was fitted once, on the selected feature columns and the
  labels, with the batch size and the epoch count of the settings. The collaborator is
  the one modelled from the specification, for every choice of its numerics.
\<close>

theorem train_model_result:
  assumes valid: "valid_settings stg"
    and present: "\<forall>f \<in> set (input_features stg). contains dataset f"
    and labels: "aligned dataset labels"
    and built: "models w ref = create_model (spec_construct T) stg metrics"
  shows "\<exists>run w' features.
           train_model (spec_keras T) experiment_name ref dataset labels stg w = (Inr run, w')
           \<and> epochs run = [0..number_epochs stg - 1]
           \<and> length (epochs run) = nat (number_epochs stg)
           \<and> distinct (columns (metrics_history run))
           \<and> set (columns (metrics_history run)) = Metric_name ` set metrics
           \<and> (\<forall>metric \<in> set metrics. \<exists>vs.
                  getitem (metrics_history run) (Metric_name metric) = Inr vs
                  \<and> length vs = nat (number_epochs stg))
           \<and> name run = experiment_name \<and> settings run = stg \<and> model run = ref
           \<and> select_features dataset (input_features stg) [] = Inr features
           \<and> calls w' = calls w @ [Fit ref features labels (batch_size stg) (number_epochs stg)]"
proof -
  let ?n = "number_epochs stg" and ?bs = "batch_size stg"
  let ?m = "models w ref"
  from valid have pos: "0 < ?n" "0 < ?bs" "input_features stg \<noteq> []"
    by (simp_all add: valid_settings_def)
  have m: "input_names ?m = input_features stg" "instrumented ?m = metrics"
    by (simp_all add: built create_model_def spec_construct_def)
  from select_features_total [OF present] obtain x where
    x: "select_features dataset (input_features stg) [] = Inr x" by blast
  from select_features_aligned [OF x labels]
  have ok: "aligned x labels" "list_all (contains x) (input_names ?m)"
    by (simp_all add: m)
  let ?start = "\<lparr>epoch = [], history = []\<rparr>"
  obtain wts h where run: "run_epochs T ?m x labels ?bs (nat ?n) 0 (weights ?m) ?start = (wts, h)"
    by (cases "run_epochs T ?m x labels ?bs (nat ?n) 0 (weights ?m) ?start")
  define C where "C = columns (metric_scores T (instrumented ?m) (weights ?m) x labels [])"
  from run_epochs_history [OF run _ _ C_def] pos(1)
  have ep: "epoch h = map int [0..<nat ?n]"
    and cols: "columns (history h) = C"
    and lens: "\<And>c. c \<in> set C \<Longrightarrow> length (recorded (history h) c) = nat ?n"
    by simp_all
  have C_set: "set C = Metric_name ` set metrics"
    unfolding C_def m using metric_scores_set [of T metrics "weights ?m" x labels "[]"]
    by (simp add: columns_def [of "[]"])
  have C_distinct: "distinct C"
    unfolding C_def by (rule metric_scores_distinct) (simp add: columns_def)
  have entry: "length (snd c) = nat ?n" if "c \<in> set (history h)" for c
  proof -
    obtain k v where c: "c = (k, v)" by (cases c)
    with that cols C_distinct have "map_of (history h) k = Some v"
      by (simp add: columns_def)
    then have "recorded (history h) k = v" by (simp add: recorded_def)
    moreover from that c cols have "k \<in> set C" by (force simp: columns_def)
    ultimately show ?thesis using lens c by auto
  qed
  then have frame: "DataFrame (history h) = Inr (history h)"
    by (intro DataFrame_same_length [of "nat ?n"]) (simp add: list_all_iff)
  have fit: "fit (spec_keras T) ?m x labels ?bs ?n = (Inr h, ?m\<lparr>weights := wts\<rparr>)"
    using ok pos m(1) run by (simp add: spec_keras_def spec_fit_def)
  let ?w = "emit (Fit ref x labels ?bs ?n) (w\<lparr>models := (models w)(ref := ?m\<lparr>weights := wts\<rparr>)\<rparr>)"
  let ?run = "\<lparr>name = experiment_name, settings = stg, model = ref, epochs = epoch h,
               metrics_history = history h\<rparr>"
  have result: "train_model (spec_keras T) experiment_name ref dataset labels stg w = (Inr ?run, ?w)"
    using x fit frame by (simp add: train_model_def Model_fit_def)
  have epochs: "epoch h = [0..?n - 1]"
    using ep pos(1) by (simp add: map_int_upt)
  have len: "length [0..?n - 1] = nat ?n"
    using pos(1) by simp
  have known: "\<exists>vs. getitem (history h) (Metric_name metric) = Inr vs
      \<and> length vs = nat ?n" if "metric \<in> set metrics" for metric
  proof -
    from that C_set have k: "Metric_name metric \<in> set C" by simp
    with cols getitem_column [of "Metric_name metric" "history h"]
    obtain v where v: "getitem (history h) (Metric_name metric) = Inr v" by auto
    with getitem_recorded [OF v] lens [OF k] show ?thesis by simp
  qed
  have log: "calls ?w = calls w @ [Fit ref x labels ?bs ?n]"
    by (simp add: emit_emits)
  show ?thesis
    using result epochs len cols C_distinct C_set known x log
    by (intro exI [of _ ?run] exI [of _ ?w] exI [of _ x]) simp
qed

lemma train_small:
  "fst (train_model (spec_keras counting) ''small'' 0 small_data [0, 1] small_settings fresh_world) =
     Inr \<lparr>name = ''small'', settings = small_settings, model = 0, epochs = [0, 1, 2],
          metrics_history = [(''accuracy'', [0.1, 0.2, 0.3]), (''auc'', [0.1, 0.2, 0.3])]\<rparr>"
  by (simp add: train_model_def Model_fit_def spec_keras_def spec_fit_def fresh_world_def
      create_model_def spec_construct_def counting_def small_metrics_def small_settings_def
      small_data_def getitem_def contains_def columns_def aligned_def numeral_3_eq_3 Let_def
      append_value_def recorded_def DataFrame_def split: prod.splits)

theorem train_model_result_witness:
  "valid_settings small_settings
   \<and> contains small_data ''f1''
   \<and> aligned small_data [0, 1]
   \<and> models fresh_world 0 = create_model (spec_construct counting) small_settings small_metrics
   \<and> (\<exists>run w'. train_model (spec_keras counting) ''small'' 0 small_data [0, 1] small_settings
                    fresh_world = (Inr run, w')
          \<and> epochs run = [0, 1, 2]
          \<and> columns (metrics_history run) = [''accuracy'', ''auc'']
          \<and> getitem (metrics_history run) ''accuracy'' = Inr [0.1, 0.2, 0.3]
          \<and> calls w' = [Fit 0 [(''f1'', [0.1, 0.9])] [0, 1] 10 3])"
proof -
  have v: "valid_settings small_settings"
    by (simp add: valid_settings_def small_settings_def)
  have p: "\<forall>f \<in> set (input_features small_settings). contains small_data f"
    by (simp add: small_settings_def small_data_def contains_def columns_def)
  have a: "aligned small_data [0, 1]"
    by (simp add: aligned_def small_data_def)
  have b: "models fresh_world 0 = create_model (spec_construct counting) small_settings small_metrics"
    by (simp add: fresh_world_def)
  from train_model_result [OF v p a b, of "''small''"]
  obtain run w' features where r:
      "train_model (spec_keras counting) ''small'' 0 small_data [0, 1] small_settings fresh_world =
         (Inr run, w')"
      "select_features small_data (input_features small_settings) [] = Inr features"
      "calls w' = calls fresh_world @
         [Fit 0 features [0, 1] (batch_size small_settings) (number_epochs small_settings)]"
    by blast
  from r(1) train_small have run: "run =
      \<lparr>name = ''small'', settings = small_settings, model = 0, epochs = [0, 1, 2],
       metrics_history = [(''accuracy'', [0.1, 0.2, 0.3]), (''auc'', [0.1, 0.2, 0.3])]\<rparr>"
    by simp
  from r(2) have f: "features = [(''f1'', [0.1, 0.9])]"
    by (simp add: small_settings_def small_data_def getitem_def)
  from r(3) f have c: "calls w' = [Fit 0 [(''f1'', [0.1, 0.9])] [0, 1] 10 3]"
    by (simp add: fresh_world_def small_settings_def)
  from p have p1: "contains small_data ''f1''" by (simp add: small_settings_def)
  from run have g: "epochs run = [0, 1, 2]"
      "columns (metrics_history run) = [''accuracy'', ''auc'']"
      "getitem (metrics_history run) ''accuracy'' = Inr [0.1, 0.2, 0.3]"
    by (simp_all add: columns_def getitem_def)
  from v p1 a b r(1) g c show ?thesis by blast
qed

text \<open>
  With labels that are not aligned with a feature column the collaborator's
  \<open>DataError\<close> propagates: \<^verbatim>\<open>train_model\<close> does not catch it.
\<close>

lemma train_model_misaligned:
  assumes present: "\<forall>f \<in> set (input_features stg). contains dataset f"
    and f: "f \<in> set (input_features stg)" and col: "getitem dataset f = Inr col"
    and len: "length col \<noteq> length labels"
    and built: "models w ref = create_model (spec_construct T) stg metrics"
  shows "fst (train_model (spec_keras T) experiment_name ref dataset labels stg w) =
           Inl (DataError ''labels misalign with features'')"
proof -
  let ?m = "models w ref"
  have m: "input_names ?m = input_features stg"
    by (simp add: built create_model_def spec_construct_def)
  from select_features_total [OF present] obtain x where
    x: "select_features dataset (input_features stg) [] = Inr x" by blast
  from select_features_result [OF x] have d: "distinct (columns x)"
    and keys: "set (columns x) = set (input_features stg)"
    and vals: "\<And>k. map_of x k = (if k \<in> set (input_features stg) then map_of dataset k else None)"
    by (simp_all add: columns_def)
  from col have "map_of dataset f = Some col"
    by (auto simp: getitem_def split: option.splits)
  with vals [of f] f have "map_of x f = Some col" by simp
  then have "(f, col) \<in> set x" by (rule map_of_SomeD)
  with len have bad: "\<not> aligned x labels"
    by (force simp: aligned_def list_all_iff)
  have ok: "list_all (contains x) (input_names ?m)"
    using keys by (simp add: m list_all_iff contains_def)
  show ?thesis
    using x bad ok by (simp add: train_model_def Model_fit_def spec_keras_def spec_fit_def)
qed

text \<open>The collaborator of the specification evaluates in inference mode.\<close>

lemma spec_keras_inference_only: "inference_only (spec_keras T)"
  by (simp add: inference_only_def spec_keras_def spec_evaluate_def)

section \<open>Settings are not validated\<close>

text \<open>
  Claim C7, as the code has it. Constructing the settings never fails: the five values
  are stored as they are given, valid or not, and \<^verbatim>\<open>train_model\<close> hands the batch
  size and the epoch count to the framework's \<^verbatim>\<open>fit\<close> unchanged, where an invalid
  value can first be rejected.
\<close>

theorem ExperimentSettings_init_unchecked:
  assumes "select_features dataset fs [] = Inr features"
  shows "\<exists>s. ExperimentSettings_init lr ne bs ct fs = Inr s
           \<and> learning_rate s = lr \<and> number_epochs s = ne \<and> batch_size s = bs
           \<and> classification_threshold s = ct \<and> input_features s = fs
           \<and> calls (snd (train_model K experiment_name ref dataset labels s w)) =
               calls w @ [Fit ref features labels bs ne]"
  using assms
  by (auto simp: ExperimentSettings_init_def train_model_def Model_fit_def emit_emits
      split: prod.splits sum.splits)

theorem ExperimentSettings_init_unchecked_witness:
  "select_features small_data [] [] = Inr []
   \<and> (\<exists>s. ExperimentSettings_init 0.001 0 (- 5) 0.5 [] = Inr s
          \<and> number_epochs s = 0 \<and> batch_size s = - 5 \<and> input_features s = []
          \<and> calls (snd (train_model stub_keras ''bad'' 0 small_data [0, 1] s world0)) =
              [Fit 0 [] [0, 1] (- 5) 0])"
proof -
  have h: "select_features small_data [] [] = Inr []" by simp
  show ?thesis
    using h ExperimentSettings_init_unchecked [OF h, of "0.001" 0 "- 5" "0.5" stub_keras "''bad''" 0 "[0, 1]" world0]
    by (auto simp: world0_def)
qed

text \<open>
  Settings with no epochs, a negative batch size and no features are not valid, and their
  construction returns the record.
\<close>

theorem ExperimentSettings_init_invalid_example:
  "ExperimentSettings_init 0.001 0 (- 5) 0.5 [] =
     Inr \<lparr>learning_rate = 0.001, number_epochs = 0, batch_size = - 5,
          classification_threshold = 0.5, input_features = []\<rparr>
   \<and> \<not> valid_settings \<lparr>learning_rate = 0.001, number_epochs = 0, batch_size = - 5,
          classification_threshold = 0.5, input_features = []\<rparr>"
  by (simp add: ExperimentSettings_init_def valid_settings_def)

section \<open>Evaluation\<close>

text \<open>
  Claim C2 is about the batch size of the evaluation. The call that
  \<^verbatim>\<open>evaluate_experiment\<close> makes to the framework carries the batch size of the
  module-level \<^verbatim>\<open>settings\<close>, whatever the batch size of the run's own settings.
\<close>

theorem evaluate_experiment_batch_size:
  assumes "select_features test_dataset (input_features (settings experiment)) [] = Inr features"
  shows "calls (snd (evaluate_experiment K experiment test_dataset test_labels w)) =
           calls w @ [Evaluate (model experiment) features test_labels
                        (batch_size (settings_global w))]"
  using assms
  by (simp add: evaluate_experiment_def Model_evaluate_def emit_emits split: prod.splits)

theorem evaluate_experiment_batch_size_witness:
  "select_features small_data (input_features (settings small_run)) [] = Inr [(''f1'', [0.1, 0.9])]
   \<and> batch_size (settings small_run) = 10
   \<and> calls (snd (evaluate_experiment stub_keras small_run small_data [0, 1] world0)) =
       [Evaluate 0 [(''f1'', [0.1, 0.9])] [0, 1] 100]"
proof -
  have h: "select_features small_data (input_features (settings small_run)) [] = Inr [(''f1'', [0.1, 0.9])]"
    by (simp add: small_run_def small_settings_def small_data_def getitem_def)
  show ?thesis
    using h evaluate_experiment_batch_size [OF h, of stub_keras "[0, 1]" world0]
    by (simp add: small_run_def small_settings_def world0_def baseline_settings_def)
qed

lemma Model_evaluate_inference:
  assumes "inference_only K"
  shows "Model_evaluate K ref x y bs w =
           (fst (evaluate K (models w ref) x y bs), emit (Evaluate ref x y bs) w)"
proof -
  obtain r m' where e: "evaluate K (models w ref) x y bs = (r, m')"
    by (cases "evaluate K (models w ref) x y bs")
  have "snd (evaluate K (models w ref) x y bs) = models w ref"
    using assms by (simp add: inference_only_def)
  with e have "m' = models w ref" by simp
  then have "w\<lparr>models := (models w)(ref := m')\<rparr> = w" by simp
  with e show ?thesis by (simp add: Model_evaluate_def)
qed

text \<open>
  Claim C8. \<^verbatim>\<open>evaluate_experiment\<close> assigns no attribute of the run; what a call
  can change is the state of the run's model object, through the framework's
  \<^verbatim>\<open>evaluate\<close>. When that is inference only, a call leaves every model object and the
  module-level settings as they were, and a second call with the same run and data
  returns what the first returned.
\<close>

theorem evaluate_experiment_idempotent:
  assumes "inference_only K"
  shows "models (snd (evaluate_experiment K experiment test_dataset test_labels w)) = models w
       \<and> settings_global (snd (evaluate_experiment K experiment test_dataset test_labels w)) =
           settings_global w
       \<and> fst (evaluate_experiment K experiment test_dataset test_labels
                (snd (evaluate_experiment K experiment test_dataset test_labels w))) =
           fst (evaluate_experiment K experiment test_dataset test_labels w)"
proof (cases "select_features test_dataset (input_features (settings experiment)) []")
  case (Inl err)
  then show ?thesis by (simp add: evaluate_experiment_def)
next
  case (Inr features)
  then show ?thesis
    by (simp add: evaluate_experiment_def Model_evaluate_inference [OF assms] emit_emits)
qed

theorem evaluate_experiment_idempotent_witness:
  "inference_only stub_keras
   \<and> fst (evaluate_experiment stub_keras small_run small_data [0, 1] world0) =
       Inr [(''loss'', 0.5), (''accuracy'', 0.9)]
   \<and> models (snd (evaluate_experiment stub_keras small_run small_data [0, 1] world0)) = models world0
   \<and> fst (evaluate_experiment stub_keras small_run small_data [0, 1]
            (snd (evaluate_experiment stub_keras small_run small_data [0, 1] world0))) =
       Inr [(''loss'', 0.5), (''accuracy'', 0.9)]"
proof -
  have h: "inference_only stub_keras"
    by (simp add: inference_only_def stub_keras_def)
  have v: "fst (evaluate_experiment stub_keras small_run small_data [0, 1] world0) =
       Inr [(''loss'', 0.5), (''accuracy'', 0.9)]"
    by (simp add: evaluate_experiment_def Model_evaluate_def small_run_def small_settings_def
        small_data_def getitem_def stub_keras_def)
  show ?thesis
    using h v evaluate_experiment_idempotent [OF h, of small_run small_data "[0, 1]" world0]
    by simp
qed

section \<open>Comparing experiments: the availability check\<close>

lemma check_experiments_Inr:
  "check_experiments metric es = Inr u \<longleftrightarrow> (\<forall>e \<in> set es. contains (metrics_history e) metric)"
  by (induction es) auto

lemma check_experiments_Inl:
  "check_experiments metric es = Inl err \<Longrightarrow>
     \<exists>e \<in> set es. \<not> contains (metrics_history e) metric
        \<and> err = ValueError (not_available_message metric (name e))"
  by (induction es) (auto split: if_splits)

lemma check_metrics_Inr:
  "check_metrics ms es = Inr u \<longleftrightarrow>
     (\<forall>m \<in> set ms. \<forall>e \<in> set es. contains (metrics_history e) m)"
proof (induction ms)
  case Nil
  then show ?case by simp
next
  case (Cons m ms)
  show ?case
  proof (cases "check_experiments m es")
    case (Inl err)
    with check_experiments_Inl [OF Inl] show ?thesis by auto
  next
    case (Inr v)
    with Cons check_experiments_Inr [of m es v] show ?thesis by auto
  qed
qed

lemma check_metrics_Inl:
  "check_metrics ms es = Inl err \<Longrightarrow>
     \<exists>m \<in> set ms. \<exists>e \<in> set es. \<not> contains (metrics_history e) m
        \<and> err = ValueError (not_available_message m (name e))"
proof (induction ms)
  case Nil
  then show ?case by simp
next
  case (Cons m ms)
  show ?case
  proof (cases "check_experiments m es")
    case (Inl e')
    with Cons.prems have "e' = err" by simp
    with check_experiments_Inl [OF Inl] show ?thesis by auto
  next
    case (Inr v)
    with Cons show ?thesis by auto
  qed
qed

text \<open>
  Claim C3. When some metric of interest is not a column of some run's
  \<^verbatim>\<open>metrics_history\<close>, \<^verbatim>\<open>compare_experiment\<close> raises the script's
  unknown-metric error, a \<^verbatim>\<open>ValueError\<close> whose message contains the metric and the
  name of a run that lacks it, and the state is what it was: nothing was drawn and no
  model was evaluated.
\<close>

theorem compare_experiment_fails_fast:
  assumes "metric \<in> set metrics_of_interest" and "experiment \<in> set experiments"
    and "\<not> contains (metrics_history experiment) metric"
  shows "\<exists>m e. m \<in> set metrics_of_interest \<and> e \<in> set experiments
           \<and> \<not> contains (metrics_history e) m
           \<and> compare_experiment K experiments metrics_of_interest test_dataset test_labels w =
               (Inl (ValueError (not_available_message m (name e))), w)
           \<and> sublist m (not_available_message m (name e))
           \<and> sublist (name e) (not_available_message m (name e))"
proof -
  have "check_metrics metrics_of_interest experiments \<noteq> Inr ()"
    using assms check_metrics_Inr [of metrics_of_interest experiments "()"] by blast
  then obtain err where err: "check_metrics metrics_of_interest experiments = Inl err"
    by (cases "check_metrics metrics_of_interest experiments") auto
  from check_metrics_Inl [OF err] obtain m e where me:
    "m \<in> set metrics_of_interest" "e \<in> set experiments" "\<not> contains (metrics_history e) m"
    "err = ValueError (not_available_message m (name e))"
    by blast
  have run: "compare_experiment K experiments metrics_of_interest test_dataset test_labels w =
      (Inl (ValueError (not_available_message m (name e))), w)"
    using err me(4) by (simp add: compare_experiment_def)
  have s1: "sublist m (not_available_message m (name e))"
    unfolding not_available_message_def by (rule sublist_appendI)
  have s2: "sublist (name e) (not_available_message m (name e))"
    unfolding not_available_message_def by (metis append.assoc sublist_append_leftI)
  from me run s1 s2 show ?thesis by blast
qed

theorem compare_experiment_fails_fast_witness:
  "''accuracy'' \<in> set [''loss'', ''accuracy''] \<and> run_a \<in> set [small_run, run_a]
   \<and> \<not> contains (metrics_history run_a) ''accuracy''
   \<and> compare_experiment stub_keras [small_run, run_a] [''loss'', ''accuracy''] small_data [0, 1] world0 =
       (Inl (ValueError ''Metric accuracy not available for experiment a''), world0)"
proof -
  have h1: "''accuracy'' \<in> set [''loss'', ''accuracy'']" by simp
  have h2: "run_a \<in> set [small_run, run_a]" by simp
  have h3: "\<not> contains (metrics_history run_a) ''accuracy''"
    by (simp add: run_a_def contains_def columns_def)
  from compare_experiment_fails_fast [OF h1 h2 h3, of stub_keras small_data "[0, 1]" world0]
  obtain m e where me: "m \<in> set [''loss'', ''accuracy'']" "e \<in> set [small_run, run_a]"
    "\<not> contains (metrics_history e) m"
    "compare_experiment stub_keras [small_run, run_a] [''loss'', ''accuracy''] small_data [0, 1] world0 =
       (Inl (ValueError (not_available_message m (name e))), world0)"
    by blast
  have "m = ''accuracy'' \<and> e = run_a"
    using me(1-3) by (auto simp: run_a_def small_run_def contains_def columns_def)
  with me(4) have "compare_experiment stub_keras [small_run, run_a] [''loss'', ''accuracy''] small_data [0, 1] world0 =
       (Inl (ValueError ''Metric accuracy not available for experiment a''), world0)"
    by (simp add: not_available_message_def run_a_def)
  with h1 h2 h3 show ?thesis by blast
qed

section \<open>Comparing experiments: more metrics than markers\<close>

lemma index_nat:
  "index xs (int i) = (if i < length xs then Inr (xs ! i) else Inl IndexError)"
  by (simp add: index_def)

lemma getitem_present:
  "contains d k \<Longrightarrow> getitem d k = Inr (the (map_of d k))"
  using contains_getitem [of d k] by (auto simp: getitem_def split: option.splits)

lemma plot_experiments_result:
  assumes "\<forall>e \<in> set es. contains (metrics_history e) metric"
  shows "fst (plot_experiments cs i metric j es w) = Inr ()
       \<or> fst (plot_experiments cs i metric j es w) = Inl IndexError"
  using assms
  by (induction es arbitrary: j w) (auto simp: getitem_present index_nat)

lemma plot_metrics_result:
  assumes "\<forall>m \<in> set ms. \<forall>e \<in> set es. contains (metrics_history e) m"
  shows "fst (plot_metrics cs i ms es w) = Inr () \<or> fst (plot_metrics cs i ms es w) = Inl IndexError"
  using assms
proof (induction ms arbitrary: i w)
  case Nil
  then show ?case by simp
next
  case (Cons m ms)
  obtain r w1 where p: "plot_experiments cs i m 0 es w = (r, w1)"
    by (cases "plot_experiments cs i m 0 es w")
  from Cons.prems have "\<forall>e \<in> set es. contains (metrics_history e) m" by simp
  from plot_experiments_result [OF this, of cs i 0 w] p
  have r: "r = Inr () \<or> r = Inl IndexError" by simp
  from Cons.IH [of "Suc i" w1] Cons.prems
  have "fst (plot_metrics cs (Suc i) ms es w1) = Inr ()
      \<or> fst (plot_metrics cs (Suc i) ms es w1) = Inl IndexError" by simp
  with p r show ?case by auto
qed

lemma metric_handles_overflow:
  assumes "i \<le> 6" and "6 < i + length ms"
  shows "metric_handles i ms acc = Inl IndexError"
  using assms
proof (induction ms arbitrary: i acc)
  case Nil
  then show ?case by simp
next
  case (Cons m ms)
  show ?case
  proof (cases "i < 6")
    case True
    with Cons.prems have "metric_handles (Suc i) ms
        (acc @ [\<lparr>label = m, marker = Some (markers ! i), markersize = Some marker_size,
                  color = Some ''k''\<rparr>]) = Inl IndexError"
      by (intro Cons.IH) auto
    with True show ?thesis by (simp add: index_nat markers_def)
  next
    case False
    then show ?thesis by (simp add: index_nat markers_def)
  qed
qed

text \<open>
  Claim C10. There are six markers. With more than six metrics of interest, each a
  column of every run, \<^verbatim>\<open>compare_experiment\<close> raises \<^verbatim>\<open>IndexError\<close>: at the
  seventh metric's first curve, or, without runs, at its legend handle.
\<close>

theorem compare_experiment_seven_metrics:
  assumes "6 < length metrics_of_interest"
    and "\<forall>m \<in> set metrics_of_interest. \<forall>e \<in> set experiments. contains (metrics_history e) m"
  shows "fst (compare_experiment K experiments metrics_of_interest test_dataset test_labels w) =
           Inl IndexError"
proof -
  have chk: "check_metrics metrics_of_interest experiments = Inr ()"
    using assms(2) by (simp add: check_metrics_Inr)
  let ?w = "emits [Figure 12 12, Add_subplot 2 1 1, Set_title ''Train metrics''] w"
  obtain r w1 where p:
    "plot_metrics (colors experiments) 0 metrics_of_interest experiments ?w = (r, w1)"
    by (cases "plot_metrics (colors experiments) 0 metrics_of_interest experiments ?w")
  from plot_metrics_result [OF assms(2), of "colors experiments" 0 ?w] p
  have r: "r = Inr () \<or> r = Inl IndexError" by simp
  have h: "metric_handles 0 metrics_of_interest [] = Inl IndexError"
    using assms(1) by (intro metric_handles_overflow) auto
  from r show ?thesis
  proof
    assume "r = Inr ()"
    with chk p h show ?thesis by (simp add: compare_experiment_def)
  next
    assume "r = Inl IndexError"
    with chk p show ?thesis by (simp add: compare_experiment_def)
  qed
qed

theorem compare_experiment_seven_metrics_witness:
  "6 < length seven_metrics
   \<and> contains (metrics_history wide_run) ''m7''
   \<and> fst (compare_experiment stub_keras [wide_run] seven_metrics small_data [0, 1] world0) =
       Inl IndexError"
proof -
  have h1: "6 < length seven_metrics" by (simp add: seven_metrics_def)
  have h2: "\<forall>m \<in> set seven_metrics. \<forall>e \<in> set [wide_run]. contains (metrics_history e) m"
    by (simp add: wide_run_def contains_def columns_def comp_def)
  have h3: "contains (metrics_history wide_run) ''m7''"
    using h2 by (simp add: seven_metrics_def)
  from compare_experiment_seven_metrics [OF h1 h2, of stub_keras small_data "[0, 1]" world0] h1 h3
  show ?thesis by simp
qed

section \<open>Comparing experiments: colours and markers\<close>

lemma styled_append [simp]: "styled (as @ bs) = styled as @ styled bs"
  by (simp add: styled_def)

lemma styled_Nil [simp]: "styled [] = []"
  by (simp add: styled_def)

lemma styled_Cons [simp]: "styled (c # cs) = (if is_styled c then c # styled cs else styled cs)"
  by (simp add: styled_def)

lemma new_calls_emits [simp]: "new_calls w (emits cs w) = cs"
  by (simp add: new_calls_def)

lemma new_calls_self [simp]: "new_calls w w = []"
  by (simp add: new_calls_def)

lemma new_calls_append: "calls w' = calls w @ cs \<Longrightarrow> new_calls w w' = cs"
  by (simp add: new_calls_def)

text \<open>The train curves: what is drawn does not depend on the state.\<close>

lemma plot_experiments_emits:
  "\<exists>r ps. \<forall>w :: 'm world. plot_experiments cs i metric j es w = (r, emits ps w)"
proof (induction es arbitrary: j)
  case Nil
  have "\<forall>w :: 'm world. plot_experiments cs i metric j [] w = (Inr (), emits [] w)" by simp
  then show ?case by blast
next
  case (Cons e es)
  show ?case
  proof (cases "getitem (metrics_history e) metric")
    case (Inl err)
    then have "\<forall>w :: 'm world. plot_experiments cs i metric j (e # es) w = (Inl err, emits [] w)"
      by simp
    then show ?thesis by blast
  next
    case series: (Inr series)
    show ?thesis
    proof (cases "index markers (int i)")
      case (Inl err)
      with series have "\<forall>w :: 'm world. plot_experiments cs i metric j (e # es) w = (Inl err, emits [] w)"
        by simp
      then show ?thesis by blast
    next
      case mk: (Inr mk)
      show ?thesis
      proof (cases "index cs (int j)")
        case (Inl err)
        with series mk
        have "\<forall>w :: 'm world. plot_experiments cs i metric j (e # es) w = (Inl err, emits [] w)"
          by simp
        then show ?thesis by blast
      next
        case (Inr c)
        from Cons [of "Suc j"] obtain r ps where
          ih: "\<And>w :: 'm world. plot_experiments cs i metric (Suc j) es w = (r, emits ps w)"
          by blast
        have "\<forall>w :: 'm world. plot_experiments cs i metric j (e # es) w =
            (r, emits (Plot (epochs e) series 4 mk marker_size c # ps) w)"
          using series mk Inr ih by (simp add: emit_emits)
        then show ?thesis by blast
      qed
    qed
  qed
qed

lemma plot_metrics_emits:
  "\<exists>r ps. \<forall>w :: 'm world. plot_metrics cs i ms es w = (r, emits ps w)"
proof (induction ms arbitrary: i)
  case Nil
  have "\<forall>w :: 'm world. plot_metrics cs i [] es w = (Inr (), emits [] w)" by simp
  then show ?case by blast
next
  case (Cons m ms)
  from plot_experiments_emits [of cs i m 0 es] obtain r ps where
    p: "\<And>w :: 'm world. plot_experiments cs i m 0 es w = (r, emits ps w)" by blast
  show ?case
  proof (cases r)
    case (Inl err)
    with p have "\<forall>w :: 'm world. plot_metrics cs i (m # ms) es w = (Inl err, emits ps w)" by simp
    then show ?thesis by blast
  next
    case (Inr u)
    from Cons [of "Suc i"] obtain r' ps' where
      ih: "\<And>w :: 'm world. plot_metrics cs (Suc i) ms es w = (r', emits ps' w)" by blast
    from p Inr ih
    have "\<forall>w :: 'm world. plot_metrics cs i (m # ms) es w = (r', emits (ps @ ps') w)" by simp
    then show ?thesis by blast
  qed
qed

text \<open>The bars: no curve and no legend with handles.\<close>

lemma evaluate_experiment_calls:
  "\<exists>cs. calls (snd (evaluate_experiment K e ds ls w)) = calls w @ cs \<and> styled cs = []"
  by (cases "select_features ds (input_features (settings e)) []")
    (auto simp: evaluate_experiment_def Model_evaluate_def emit_emits split: prod.splits)

lemma bar_experiments_calls:
  "\<exists>cs. calls (snd (bar_experiments K ms ds ls bw n i es w)) = calls w @ cs \<and> styled cs = []"
proof (induction es arbitrary: i w)
  case Nil
  then show ?case by simp
next
  case (Cons e es)
  obtain r w1 where ev: "evaluate_experiment K e ds ls w = (r, w1)"
    by (cases "evaluate_experiment K e ds ls w")
  from evaluate_experiment_calls [of K e ds ls w] ev
  obtain cs where cs: "calls w1 = calls w @ cs" "styled cs = []" by auto
  show ?case
  proof (cases r)
    case (Inl err)
    with ev cs show ?thesis by simp
  next
    case (Inr test_metrics)
    show ?thesis
    proof (cases "lookup_all test_metrics ms")
      case (Inl err)
      with ev Inr cs show ?thesis by simp
    next
      case heights: (Inr heights)
      let ?w = "emit (Bar (bar_positions (length ms) bw i n) heights bw (name e)) w1"
      from Cons [of "Suc i" ?w] obtain cs' where
        cs': "calls (snd (bar_experiments K ms ds ls bw n (Suc i) es ?w)) = calls ?w @ cs'"
          "styled cs' = []" by blast
      have "calls (snd (bar_experiments K ms ds ls bw n i (e # es) w)) =
          calls w @ (cs @ [Bar (bar_positions (length ms) bw i n) heights bw (name e)] @ cs')"
        using ev Inr heights cs'(1) cs(1) by (simp add: emit_emits)
      moreover have "styled (cs @ [Bar (bar_positions (length ms) bw i n) heights bw (name e)] @ cs') = []"
        using cs(2) cs'(2) by simp
      ultimately show ?thesis by blast
    qed
  qed
qed

lemma index_colors:
  "j < length es0 \<Longrightarrow> index (colors es0) (int j) = Inr (color_of_run j)"
  by (simp add: index_nat colors_def color_of_run_def)

lemma index_markers:
  "i < 6 \<Longrightarrow> index markers (int i) = Inr (marker_of_metric i)"
  by (simp add: index_nat markers_def marker_of_metric_def)

lemma plot_experiments_ok:
  assumes "\<forall>e \<in> set es. contains (metrics_history e) metric"
    and "i < 6" and "j + length es \<le> length es0"
  shows "plot_experiments (colors es0) i metric j es w =
           (Inr (), emits (map (\<lambda>(j, e). train_curve i metric j e) (enumerate j es)) w)"
  using assms
proof (induction es arbitrary: j w)
  case Nil
  then show ?case by simp
next
  case (Cons e es)
  from Cons.prems have j: "j < length es0" and rest: "Suc j + length es \<le> length es0"
    and here: "contains (metrics_history e) metric"
    and there: "\<forall>e \<in> set es. contains (metrics_history e) metric"
    by auto
  from Cons.IH [OF there Cons.prems(2) rest]
  show ?case
    using here j Cons.prems(2)
    by (simp add: getitem_present index_colors index_markers emit_emits train_curve_def)
qed

lemma plot_metrics_ok:
  assumes "\<forall>m \<in> set ms. \<forall>e \<in> set es. contains (metrics_history e) m"
    and "i + length ms \<le> 6"
  shows "plot_metrics (colors es) i ms es w =
           (Inr (), emits (concat (map (\<lambda>(i, m). map (\<lambda>(j, e). train_curve i m j e)
                                                    (enumerate 0 es))
                                       (enumerate i ms))) w)"
  using assms
proof (induction ms arbitrary: i w)
  case Nil
  then show ?case by simp
next
  case (Cons m ms)
  from Cons.prems have i: "i < 6" and rest: "Suc i + length ms \<le> 6"
    and here: "\<forall>e \<in> set es. contains (metrics_history e) m"
    and there: "\<forall>m \<in> set ms. \<forall>e \<in> set es. contains (metrics_history e) m"
    by auto
  have p: "plot_experiments (colors es) i m 0 es w =
      (Inr (), emits (map (\<lambda>(j, e). train_curve i m j e) (enumerate 0 es)) w)"
    using here i by (intro plot_experiments_ok) auto
  from Cons.IH [OF there rest] p show ?case by simp
qed

lemma metric_handles_ok:
  assumes "i + length ms \<le> 6"
  shows "metric_handles i ms acc =
           Inr (acc @ map (\<lambda>(i, m). metric_entry i m) (enumerate i ms))"
  using assms
proof (induction ms arbitrary: i acc)
  case Nil
  then show ?case by simp
next
  case (Cons m ms)
  then have "i < 6" and "Suc i + length ms \<le> 6" by auto
  with Cons.IH [of "Suc i"] show ?case
    by (simp add: index_markers metric_entry_def)
qed

lemma experiment_handles_ok:
  assumes "j + length es \<le> length es0"
  shows "experiment_handles (colors es0) j es acc =
           Inr (acc @ map (\<lambda>(j, e). run_entry j e) (enumerate j es))"
  using assms
proof (induction es arbitrary: j acc)
  case Nil
  then show ?case by simp
next
  case (Cons e es)
  then have "j < length es0" and "Suc j + length es \<le> length es0" by auto
  with Cons.IH [of "Suc j"] show ?case
    by (simp add: index_colors run_entry_def)
qed

lemma test_bars_calls:
  "\<exists>cs. calls (snd (test_bars K es ms ds ls w2)) = calls w2 @ cs \<and> styled cs = []"
proof (cases "length es = 0")
  case True
  then show ?thesis by (simp add: test_bars_def)
next
  case False
  let ?bar = "bar_experiments K ms ds ls ((1 - spacing) / real (length es)) (length es) 0 es w2"
  obtain r w3 where b: "?bar = (r, w3)" by (cases ?bar)
  from bar_experiments_calls [of K ms ds ls "(1 - spacing) / real (length es)" "length es" 0 es w2] b
  obtain cs where cs: "calls w3 = calls w2 @ cs" "styled cs = []" by auto
  show ?thesis
  proof (cases r)
    case (Inl err)
    with False b cs show ?thesis by (simp add: test_bars_def)
  next
    case (Inr u)
    let ?T = "[Set_xticks [0..<length ms] ms, Set_title ''Test metrics'',
               Set_ylabel ''Metric value'', Set_axisbelow True, Grid, Legend]"
    have "calls (snd (test_bars K es ms ds ls w2)) = calls w2 @ (cs @ ?T)"
      using False b Inr cs(1) by (simp add: test_bars_def)
    moreover have "styled (cs @ ?T) = []" using cs(2) by simp
    ultimately show ?thesis by blast
  qed
qed

lemma compare_experiment_unfold:
  "compare_experiment K experiments metrics_of_interest test_dataset test_labels w =
     (case check_metrics metrics_of_interest experiments of
        Inl err \<Rightarrow> (Inl err, w)
      | Inr _ \<Rightarrow>
          (case plot_metrics (colors experiments) 0 metrics_of_interest experiments
                  (emits [Figure 12 12, Add_subplot 2 1 1, Set_title ''Train metrics''] w) of
             (Inl err, w1) \<Rightarrow> (Inl err, w1)
           | (Inr _, w1) \<Rightarrow>
               (case metric_handles 0 metrics_of_interest [] of
                  Inl err \<Rightarrow> (Inl err, w1)
                | Inr hs \<Rightarrow>
                    (case experiment_handles (colors experiments) 0 experiments hs of
                       Inl err \<Rightarrow> (Inl err, w1)
                     | Inr legend_handles \<Rightarrow>
                         test_bars K experiments metrics_of_interest test_dataset test_labels
                           (emits [Set_xlabel ''Epoch'', Set_ylabel ''Metric value'', Grid,
                                   Legend_handles legend_handles, Add_subplot 2 1 2] w1)))))"
  unfolding compare_experiment_def test_bars_def Let_def by (rule refl)

lemma compare_experiment_styled:
  assumes p: "\<And>w :: 'm world. plot_metrics (colors es) 0 ms es w = (r, emits ps w)"
  shows "styled (new_calls w (snd (compare_experiment (K :: 'm keras) es ms ds ls w))) =
           (case check_metrics ms es of
              Inl err \<Rightarrow> []
            | Inr _ \<Rightarrow>
                (case r of
                   Inl err \<Rightarrow> styled ps
                 | Inr _ \<Rightarrow>
                     (case metric_handles 0 ms [] of
                        Inl err \<Rightarrow> styled ps
                      | Inr hs \<Rightarrow>
                          (case experiment_handles (colors es) 0 es hs of
                             Inl err \<Rightarrow> styled ps
                           | Inr legend_handles \<Rightarrow> styled ps @ [Legend_handles legend_handles]))))"
proof (cases "check_metrics ms es")
  case (Inl err)
  then show ?thesis by (simp add: compare_experiment_unfold)
next
  case chk: (Inr u)
  show ?thesis
  proof (cases r)
    case (Inl err)
    with chk p show ?thesis by (simp add: compare_experiment_unfold)
  next
    case r: (Inr u')
    show ?thesis
    proof (cases "metric_handles 0 ms []")
      case (Inl err)
      with chk r p show ?thesis by (simp add: compare_experiment_unfold)
    next
      case hs: (Inr hs)
      show ?thesis
      proof (cases "experiment_handles (colors es) 0 es hs")
        case (Inl err)
        with chk r hs p show ?thesis by (simp add: compare_experiment_unfold)
      next
        case (Inr lh)
        let ?A = "[Figure 12 12, Add_subplot 2 1 1, Set_title ''Train metrics''] @ ps @
                  [Set_xlabel ''Epoch'', Set_ylabel ''Metric value'', Grid,
                   Legend_handles lh, Add_subplot 2 1 2]"
        from test_bars_calls [of K es ms ds ls "emits ?A w"]
        obtain cs where cs: "calls (snd (test_bars K es ms ds ls (emits ?A w))) = calls w @ (?A @ cs)"
          "styled cs = []" by auto
        have "snd (compare_experiment K es ms ds ls w) = snd (test_bars K es ms ds ls (emits ?A w))"
          using chk r hs Inr p by (simp add: compare_experiment_unfold)
        with cs(1) have "new_calls w (snd (compare_experiment K es ms ds ls w)) = ?A @ cs"
          by (simp add: new_calls_append)
        with cs(2) chk r hs Inr show ?thesis by simp
      qed
    qed
  qed
qed

text \<open>
  Claim C9. The curves and the legend handles that \<^verbatim>\<open>compare_experiment\<close> draws
  are the same in any two calls with the same runs and the same metrics of interest,
  whatever the test data, the framework and the state of the two calls. When every metric
  is a column of every run and there are at most six metrics, they are the train curves
  and the legend of the specification: the colour of a run is \<open>color_of_run\<close> of its
  index, the marker of a metric is \<open>marker_of_metric\<close> of its index.
\<close>

theorem compare_experiment_styles:
  fixes K K' :: "'m keras"
  shows "styled (new_calls w (snd (compare_experiment K es ms ds ls w))) =
           styled (new_calls w' (snd (compare_experiment K' es ms ds' ls' w')))
       \<and> ((\<forall>m \<in> set ms. \<forall>e \<in> set es. contains (metrics_history e) m) \<and> length ms \<le> 6 \<longrightarrow>
            styled (new_calls w (snd (compare_experiment K es ms ds ls w))) =
              train_curves es ms @ [Legend_handles (legend_entries es ms)])"
proof
  from plot_metrics_emits [of "colors es" 0 ms es] obtain r ps where
    p: "\<And>w :: 'm world. plot_metrics (colors es) 0 ms es w = (r, emits ps w)" by blast
  show "styled (new_calls w (snd (compare_experiment K es ms ds ls w))) =
      styled (new_calls w' (snd (compare_experiment K' es ms ds' ls' w')))"
    by (simp only: compare_experiment_styled [of es ms r ps, OF p])
next
  show "(\<forall>m \<in> set ms. \<forall>e \<in> set es. contains (metrics_history e) m) \<and> length ms \<le> 6 \<longrightarrow>
      styled (new_calls w (snd (compare_experiment K es ms ds ls w))) =
        train_curves es ms @ [Legend_handles (legend_entries es ms)]"
  proof
    assume a: "(\<forall>m \<in> set ms. \<forall>e \<in> set es. contains (metrics_history e) m) \<and> length ms \<le> 6"
    then have present: "\<forall>m \<in> set ms. \<forall>e \<in> set es. contains (metrics_history e) m"
      and six: "0 + length ms \<le> 6" by auto
    have chk: "check_metrics ms es = Inr ()"
      using present by (simp add: check_metrics_Inr)
    have p: "plot_metrics (colors es) 0 ms es v = (Inr (), emits (train_curves es ms) v)"
      for v :: "'m world"
      unfolding train_curves_def by (rule plot_metrics_ok [OF present six])
    have hs: "metric_handles 0 ms [] = Inr (map (\<lambda>(i, m). metric_entry i m) (enumerate 0 ms))"
      using metric_handles_ok [OF six, of "[]"] by simp
    have lh: "experiment_handles (colors es) 0 es (map (\<lambda>(i, m). metric_entry i m) (enumerate 0 ms)) =
        Inr (legend_entries es ms)"
      unfolding legend_entries_def by (rule experiment_handles_ok) simp
    have all_styled: "styled (train_curves es ms) = train_curves es ms"
      by (auto simp: styled_def train_curves_def train_curve_def intro!: filter_True)
    show "styled (new_calls w (snd (compare_experiment K es ms ds ls w))) =
        train_curves es ms @ [Legend_handles (legend_entries es ms)]"
      using compare_experiment_styled [of es ms "Inr ()" "train_curves es ms" w K ds ls, OF p]
        chk hs lh all_styled by simp
  qed
qed

lemma str_digits: "str 0 = ''0''" "str (Suc 0) = ''1''"
  by code_simp+

theorem compare_experiment_styles_witness:
  "styled (new_calls world0 (snd (compare_experiment stub_keras [small_run, run_a] [''loss'']
             small_data [0, 1] world0))) =
     [Plot [0, 1, 2] [0.7, 0.6, 0.5] 4 ''.'' 10 ''C0'',
      Plot [0, 1, 2] [0.9, 0.8, 0.7] 4 ''.'' 10 ''C1'',
      Legend_handles
        [\<lparr>label = ''loss'', marker = Some ''.'', markersize = Some 10, color = Some ''k''\<rparr>,
         \<lparr>label = ''small'', marker = None, markersize = None, color = Some ''C0''\<rparr>,
         \<lparr>label = ''a'', marker = None, markersize = None, color = Some ''C1''\<rparr>]]
   \<and> styled (new_calls world1 (snd (compare_experiment stub_keras [small_run, run_a] [''loss'']
             [] [] world1))) =
       styled (new_calls world0 (snd (compare_experiment stub_keras [small_run, run_a] [''loss'']
             small_data [0, 1] world0)))"
proof -
  have present: "(\<forall>m \<in> set [''loss'']. \<forall>e \<in> set [small_run, run_a]. contains (metrics_history e) m)
      \<and> length [''loss''] \<le> 6"
    by (simp add: small_run_def run_a_def contains_def columns_def)
  have curves: "train_curves [small_run, run_a] [''loss''] =
      [Plot [0, 1, 2] [0.7, 0.6, 0.5] 4 ''.'' 10 ''C0'',
       Plot [0, 1, 2] [0.9, 0.8, 0.7] 4 ''.'' 10 ''C1'']"
    by (simp add: train_curves_def train_curve_def small_run_def run_a_def marker_of_metric_def
        markers_def marker_size_def color_of_run_def str_digits enumerate_eq_zip)
  have legend: "legend_entries [small_run, run_a] [''loss''] =
      [\<lparr>label = ''loss'', marker = Some ''.'', markersize = Some 10, color = Some ''k''\<rparr>,
       \<lparr>label = ''small'', marker = None, markersize = None, color = Some ''C0''\<rparr>,
       \<lparr>label = ''a'', marker = None, markersize = None, color = Some ''C1''\<rparr>]"
    by (simp add: legend_entries_def metric_entry_def run_entry_def small_run_def run_a_def
        marker_of_metric_def markers_def marker_size_def color_of_run_def str_digits
        enumerate_eq_zip)
  from compare_experiment_styles [of world0 stub_keras "[small_run, run_a]" "[''loss'']"
      small_data "[0, 1]" world1 stub_keras "[]" "[]"] present
  have same: "styled (new_calls world0 (snd (compare_experiment stub_keras [small_run, run_a]
        [''loss''] small_data [0, 1] world0))) =
      styled (new_calls world1 (snd (compare_experiment stub_keras [small_run, run_a]
        [''loss''] [] [] world1)))"
    and spec: "styled (new_calls world0 (snd (compare_experiment stub_keras [small_run, run_a]
        [''loss''] small_data [0, 1] world0))) =
      train_curves [small_run, run_a] [''loss'']
        @ [Legend_handles (legend_entries [small_run, run_a] [''loss''])]"
    by blast+
  from spec have "styled (new_calls world0 (snd (compare_experiment stub_keras [small_run, run_a]
        [''loss''] small_data [0, 1] world0))) =
     [Plot [0, 1, 2] [0.7, 0.6, 0.5] 4 ''.'' 10 ''C0'',
      Plot [0, 1, 2] [0.9, 0.8, 0.7] 4 ''.'' 10 ''C1'',
      Legend_handles
        [\<lparr>label = ''loss'', marker = Some ''.'', markersize = Some 10, color = Some ''k''\<rparr>,
         \<lparr>label = ''small'', marker = None, markersize = None, color = Some ''C0''\<rparr>,
         \<lparr>label = ''a'', marker = None, markersize = None, color = Some ''C1''\<rparr>]]"
    by (simp only: curves legend append.simps)
  with same [symmetric] show ?thesis by (rule conjI [rotated])
qed

section \<open>Assignment to the settings\<close>

lemma evaluate_experiment_settings:
  "settings_global (snd (evaluate_experiment K e ds ls w)) = settings_global w"
  by (simp add: evaluate_experiment_def Model_evaluate_def emit_emits split: sum.splits prod.splits)

lemma bar_experiments_settings:
  "settings_global (snd (bar_experiments K ms ds ls bw n i es w)) = settings_global w"
proof (induction es arbitrary: i w)
  case Nil
  then show ?case by simp
next
  case (Cons e es)
  obtain r w1 where ev: "evaluate_experiment K e ds ls w = (r, w1)"
    by (cases "evaluate_experiment K e ds ls w")
  with evaluate_experiment_settings [of K e ds ls w]
  have w1: "settings_global w1 = settings_global w" by simp
  show ?case
    using ev w1 Cons [of "Suc i"]
    by (simp add: emit_emits split: sum.splits)
qed

lemma test_bars_settings:
  "settings_global (snd (test_bars K es ms ds ls w)) = settings_global w"
  using bar_experiments_settings [of K ms ds ls "(1 - spacing) / real (length es)" "length es" 0 es w]
  by (auto simp: test_bars_def Let_def split: prod.splits sum.splits)

lemma compare_experiment_settings:
  "settings_global (snd (compare_experiment K es ms ds ls w)) = settings_global w"
proof -
  from plot_metrics_emits [of "colors es" 0 ms es] obtain r ps where
    p: "\<And>w :: 'a world. plot_metrics (colors es) 0 ms es w = (r, emits ps w)" by blast
  show ?thesis
    by (simp add: compare_experiment_unfold p test_bars_settings split: sum.splits)
qed

lemma train_model_settings:
  "settings_global (snd (train_model K nm ref ds ls stg w)) = settings_global w"
  by (auto simp: train_model_def Model_fit_def emit_emits split: sum.splits prod.splits)

text \<open>
  Claim C6, as the code has it. The settings are an ordinary dataclass, not a frozen one:
  an assignment to a field of an existing value succeeds and stores the new value. The
  functions of the script do not assign to the module-level settings: training,
  evaluation and comparison leave them as they are.
\<close>

theorem setattr_succeeds:
  "setattr s a = Inr (store a s)
   \<and> settings_global (snd (train_model K experiment_name ref dataset labels stg w)) =
       settings_global w
   \<and> settings_global (snd (evaluate_experiment K experiment test_dataset test_labels w)) =
       settings_global w
   \<and> settings_global (snd (compare_experiment K experiments metrics_of_interest test_dataset
         test_labels w)) = settings_global w"
  by (simp add: setattr_def ExperimentSettings_frozen_def train_model_settings
      evaluate_experiment_settings compare_experiment_settings)

text \<open>
  Assigning one epoch to the baseline settings, which had sixty, succeeds.
\<close>

theorem setattr_number_epochs_example:
  "setattr baseline_settings (Set_number_epochs 1) =
     Inr \<lparr>learning_rate = 0.001, number_epochs = 1, batch_size = 100,
          classification_threshold = 0.35,
          input_features = [''Eccentricity'', ''Major_Axis_Length'', ''Area'']\<rparr>
   \<and> number_epochs baseline_settings = 60"
  by (simp add: setattr_def ExperimentSettings_frozen_def baseline_settings_def)

end
